theory Spec2Isabelle
  imports Main
begin

section \<open>Python strings\<close>

text \<open>
  A Python \<open>str\<close> is modelled as a \<open>string\<close> whose characters are the code points
  below 256. \<open>str.lower\<close> maps the capitals A-Z and the Latin-1 capitals (192-222 except
  the multiplication sign 215) to the letter 32 code points above, which is the same
  code point with bit 5 set, and leaves every other code point below 256 unchanged.
\<close>

definition is_upper :: "char \<Rightarrow> bool" where
  "is_upper c =
     (let n = (of_char c :: nat)
      in (65 \<le> n \<and> n \<le> 90) \<or> (192 \<le> n \<and> n \<le> 222 \<and> n \<noteq> 215))"

fun set_bit5 :: "char \<Rightarrow> char" where
  "set_bit5 (Char b0 b1 b2 b3 b4 b5 b6 b7) = Char b0 b1 b2 b3 b4 True b6 b7"

definition lower_char :: "char \<Rightarrow> char" where
  "lower_char c = (if is_upper c then set_bit5 c else c)"

definition lower :: "string \<Rightarrow> string" where
  "lower s = map lower_char s"

text \<open>\<open>s.startswith(p)\<close> and \<open>k in s\<close> (substring search).\<close>

fun startswith :: "string \<Rightarrow> string \<Rightarrow> bool" where
  "startswith s [] = True"
| "startswith [] (p # ps) = False"
| "startswith (c # cs) (p # ps) = (c = p \<and> startswith cs ps)"

fun contains :: "string \<Rightarrow> string \<Rightarrow> bool" where
  "contains k [] = (k = [])"
| "contains k (c # cs) = (startswith (c # cs) k \<or> contains k cs)"

section \<open>Investigation monitor: root-cause categorisation\<close>

text \<open>
  \<open>categorize_root_cause\<close> of \<open>investigation_monitor/index.py\<close>: an \<open>if\<close>/\<open>elif\<close>
  chain, each test \<open>any(keyword in root_cause_lower for keyword in [...])\<close>.
\<close>

definition any_keyword :: "string list \<Rightarrow> string \<Rightarrow> bool" where
  "any_keyword keywords text = list_ex (\<lambda>keyword. contains keyword text) keywords"

definition categorize_root_cause :: "string \<Rightarrow> string" where
  "categorize_root_cause root_cause =
     (let root_cause_lower = lower root_cause
      in if any_keyword [''connection'', ''timeout'', ''network''] root_cause_lower
           then ''network_connectivity''
         else if any_keyword [''memory'', ''cpu'', ''disk'', ''capacity''] root_cause_lower
           then ''resource_exhaustion''
         else if any_keyword [''permission'', ''access'', ''denied'', ''unauthorized'']
                   root_cause_lower
           then ''permissions_issue''
         else if any_keyword [''deployment'', ''version'', ''rollout''] root_cause_lower
           then ''deployment_issue''
         else if any_keyword [''dependency'', ''service'', ''downstream''] root_cause_lower
           then ''dependency_failure''
         else ''unknown'')"

text \<open>
  The specification's wording of the same function, for comparison with the code: an
  ordered table of five categories, each with its keyword list; a text matches a
  category when some keyword of the list is a substring of the text with its capitals
  lowered; the first matching category of the table is the answer, \<open>unknown\<close> when
  there is none.
\<close>

definition is_substring :: "string \<Rightarrow> string \<Rightarrow> bool" where
  "is_substring k s = (\<exists>p q. s = p @ k @ q)"

definition keyword_table :: "(string \<times> string list) list" where
  "keyword_table =
     [(''network_connectivity'', [''connection'', ''timeout'', ''network'']),
      (''resource_exhaustion'', [''memory'', ''cpu'', ''disk'', ''capacity'']),
      (''permissions_issue'', [''permission'', ''access'', ''denied'', ''unauthorized'']),
      (''deployment_issue'', [''deployment'', ''version'', ''rollout'']),
      (''dependency_failure'', [''dependency'', ''service'', ''downstream''])]"

definition category_matches :: "string \<Rightarrow> string \<times> string list \<Rightarrow> bool" where
  "category_matches text entry = (\<exists>k \<in> set (snd entry). is_substring k (lower text))"

definition first_matching_category :: "string \<Rightarrow> string" where
  "first_matching_category text =
     (case find (category_matches text) keyword_table of
        None \<Rightarrow> ''unknown''
      | Some entry \<Rightarrow> fst entry)"

section \<open>Exceptions and timestamps\<close>

text \<open>
  Every \<open>raise\<close> of the source is a value: a function that can raise returns
  \<open>exn + 'a\<close>, with \<open>Inl\<close> the exception. \<open>ClientError\<close> stands for a fault the AWS
  SDK raises (throttling, access denied, a transport error), with its message.
\<close>

datatype exn =
    ValueError string
  | KeyError string
  | AttributeError string
  | JSONDecodeError
  | ParameterNotFound
  | ResourceNotFoundException
  | ClientError string
  | Exception string

text \<open>
  An ISO-8601 timestamp string is modelled by the instant it denotes, in microseconds
  since the epoch (the resolution of \<open>datetime\<close>), or as \<open>NotIso\<close> when
  \<open>datetime.fromisoformat\<close> rejects it. The strings \<open>isoformat()\<close> produces order
  lexicographically as their instants do, so Python's \<open>max\<close> over them is \<open>max\<close> over
  the instants. The arithmetic is the exact one: \<open>int(dt.timestamp() * 1000)\<close>
  truncates towards zero to whole milliseconds, and
  \<open>datetime.utcfromtimestamp(ms / 1000)\<close> is that millisecond. Local time is UTC, as in
  the Lambda runtime.
\<close>

datatype iso_text = IsoText int | NotIso string

definition to_millis :: "int \<Rightarrow> int" where
  "to_millis t = (if 0 \<le> t then t div 1000 else - ((- t) div 1000))"

definition from_millis :: "int \<Rightarrow> int" where
  "from_millis ms = ms * 1000"

definition py_str :: "string option \<Rightarrow> string" where
  "py_str v = (case v of None \<Rightarrow> ''None'' | Some s \<Rightarrow> s)"

section \<open>Investigation monitor: data\<close>

text \<open>The environment variables that \<open>investigation_monitor/index.py\<close> reads.\<close>

record config =
  CLIENT_NAME :: string
  CLIENT_ACCOUNT_ID :: string
  CENTRAL_EVENT_BUS_ARN :: string
  DEVOPS_AGENT_SPACE_ID :: string
  AWS_REGION :: string
  TAGS :: "(string \<times> string) list"

text \<open>
  A record of the log source: its timestamp in milliseconds and what \<open>json.loads\<close>
  makes of its message: a \<open>JSONDecodeError\<close>, a JSON value that is not an object (on
  which \<open>.get\<close> raises \<open>AttributeError\<close>), or an object with the keys the poller reads.
\<close>

record payload =
  p_status :: "string option"
  p_investigation_id :: "string option"
  p_severity :: "string option"
  p_root_cause :: "string option"
  p_affected_resources :: "string list option"
  p_duration_minutes :: "int option"

datatype message_body = NotJson | JsonNotObject | JsonObject payload

record log_event =
  le_timestamp :: int
  le_message :: message_body

record investigation =
  investigation_id :: "string option"
  severity :: string
  root_cause :: string
  affected_resources :: "string list"
  completed_at :: int
  duration_minutes :: int

record summary =
  s_affected_resources :: "string list"
  s_resource_types :: "string set"
  s_duration_minutes :: int
  s_root_cause_category :: string
  s_root_cause_brief :: string
  s_mitigation_status :: string

record links =
  devops_agent_investigation :: string
  cloudwatch_logs :: string
  affected_application :: string

record formatted_event =
  ev_event_type :: string
  ev_investigation_id :: "string option"
  ev_client_account_id :: string
  ev_client_name :: string
  ev_timestamp :: int
  ev_severity :: string
  ev_status :: string
  ev_summary :: summary
  ev_links :: links
  ev_tags :: "(string \<times> string) list"

text \<open>
  Two library computations are parameters of the model: \<open>json_size\<close> is
  \<open>len(json.dumps(event).encode('utf-8'))\<close>, and \<open>redact\<close> is the three regular
  expression substitutions of \<open>redact_sensitive_data\<close>.
\<close>

record library =
  json_size :: "formatted_event \<Rightarrow> nat"
  redact :: "string \<Rightarrow> string"

text \<open>
  The collaborators of one invocation: the clock, the parameter store's faults (its
  content is the state the handler takes and returns, and \<open>ParameterNotFound\<close> is the
  store being empty, so the faults here are the other ones), the log source's answer
  to a start time, and the event bus's answer to the publish of the \<open>i\<close>-th
  investigation of the batch.
\<close>

datatype logs_result = LogsRaised exn | LogsResponse "log_event list"

datatype put_events_result = PutEventsRaised exn | PutEventsResponse nat

record world =
  utcnow :: int
  get_parameter_fault :: "exn option"
  filter_log_events :: "int \<Rightarrow> logs_result"
  put_events :: "nat \<Rightarrow> formatted_event \<Rightarrow> put_events_result"
  put_parameter_fault :: "exn option"

text \<open>What an invocation prints, and the calls it makes, in order.\<close>

datatype log_line =
    Triggered
  | LastProcessedTime iso_text
  | NoNewFound
  | Found nat
  | ErrorProcessing "string option" exn
  | ErrorInMonitor exn
  | CouldNotParse
  | LogGroupNotFound
  | ExpectedWithoutLogs
  | ErrorQuerying exn
  | WarningLarge nat
  | SentEvent "string option"
  | SentSize

datatype io =
    Print log_line
  | GetParameter
  | FilterLogEvents int
  | PutEvents formatted_event
  | PutParameter int

datatype body = NoNewInvestigations string | Processed nat string

section \<open>Investigation monitor: state management\<close>

text \<open>
  \<open>get_last_processed_time\<close>: the stored value, or one hour before now when the
  parameter does not exist; any other fault of the store propagates.
\<close>

definition get_last_processed_time :: "world \<Rightarrow> iso_text option \<Rightarrow> exn + iso_text" where
  "get_last_processed_time W store =
     (case get_parameter_fault W of
        Some e \<Rightarrow> Inl e
      | None \<Rightarrow>
          (case store of
             Some v \<Rightarrow> Inr v
           | None \<Rightarrow> Inr (IsoText (utcnow W - 3600000000))))"

text \<open>\<open>update_last_processed_time\<close>: an unconditional overwrite.\<close>

definition update_last_processed_time ::
  "world \<Rightarrow> int \<Rightarrow> iso_text option \<Rightarrow> exn + iso_text option" where
  "update_last_processed_time W timestamp store =
     (case put_parameter_fault W of
        Some e \<Rightarrow> Inl e
      | None \<Rightarrow> Inr (Some (IsoText timestamp)))"

section \<open>Investigation monitor: polling\<close>

text \<open>
  The loop of \<open>get_completed_investigations\<close> over the response's events, with the list
  collected so far. A message that is not JSON is skipped with a printed line; any
  other exception leaves the loop and is returned with what was collected.
\<close>

definition investigation_of :: "log_event \<Rightarrow> payload \<Rightarrow> investigation" where
  "investigation_of event investigation_data =
     \<lparr> investigation_id = p_investigation_id investigation_data,
       severity = (case p_severity investigation_data of None \<Rightarrow> ''MEDIUM'' | Some s \<Rightarrow> s),
       root_cause = (case p_root_cause investigation_data of None \<Rightarrow> [] | Some s \<Rightarrow> s),
       affected_resources =
         (case p_affected_resources investigation_data of None \<Rightarrow> [] | Some r \<Rightarrow> r),
       completed_at = from_millis (le_timestamp event),
       duration_minutes =
         (case p_duration_minutes investigation_data of None \<Rightarrow> 0 | Some d \<Rightarrow> d) \<rparr>"

fun scan_events ::
  "log_event list \<Rightarrow> investigation list \<Rightarrow> investigation list \<times> io list \<times> exn option" where
  "scan_events [] investigations = (investigations, [], None)"
| "scan_events (event # events) investigations =
     (case le_message event of
        NotJson \<Rightarrow>
          (case scan_events events investigations of
             (invs, out, raised) \<Rightarrow> (invs, Print CouldNotParse # out, raised))
      | JsonNotObject \<Rightarrow> (investigations, [], Some (AttributeError ''get''))
      | JsonObject investigation_data \<Rightarrow>
          (if p_status investigation_data = Some ''COMPLETED''
           then scan_events events
                  (investigations @ [investigation_of event investigation_data])
           else scan_events events investigations))"

text \<open>
  \<open>get_completed_investigations\<close>: the whole body is inside
  \<open>try ... except ResourceNotFoundException ... except Exception\<close>; both handlers print
  and fall through to \<open>return investigations\<close>.
\<close>

definition get_completed_investigations ::
  "world \<Rightarrow> iso_text \<Rightarrow> investigation list \<times> io list" where
  "get_completed_investigations W since_time =
     (case since_time of
        NotIso s \<Rightarrow> ([], [Print (ErrorQuerying (ValueError ''Invalid isoformat string''))])
      | IsoText t \<Rightarrow>
          (let since_timestamp = to_millis t
           in case filter_log_events W since_timestamp of
                LogsRaised e \<Rightarrow>
                  (if e = ResourceNotFoundException
                   then ([], [FilterLogEvents since_timestamp, Print LogGroupNotFound,
                              Print ExpectedWithoutLogs])
                   else ([], [FilterLogEvents since_timestamp, Print (ErrorQuerying e)]))
              | LogsResponse events \<Rightarrow>
                  (case scan_events events [] of
                     (investigations, out, None) \<Rightarrow>
                       (investigations, FilterLogEvents since_timestamp # out)
                   | (investigations, out, Some e) \<Rightarrow>
                       (investigations,
                        FilterLogEvents since_timestamp # out @ [Print (ErrorQuerying e)]))))"

section \<open>Investigation monitor: event formatting\<close>

text \<open>
  \<open>str.upper\<close> on the code points below 256: the small letters a-z and the Latin-1
  small letters 224-254 except the division sign 247 lose bit 5. The three small
  letters below 256 whose capital is not below 256 (181, 223, 255) stay as they are
  in the model; resource identifiers are ASCII.
\<close>

definition is_lower :: "char \<Rightarrow> bool" where
  "is_lower c =
     (let n = (of_char c :: nat)
      in (97 \<le> n \<and> n \<le> 122) \<or> (224 \<le> n \<and> n \<le> 254 \<and> n \<noteq> 247))"

fun clear_bit5 :: "char \<Rightarrow> char" where
  "clear_bit5 (Char b0 b1 b2 b3 b4 b5 b6 b7) = Char b0 b1 b2 b3 b4 False b6 b7"

definition upper :: "string \<Rightarrow> string" where
  "upper s = map (\<lambda>c. if is_lower c then clear_bit5 c else c) s"

fun split_on :: "char \<Rightarrow> string \<Rightarrow> string list" where
  "split_on sep [] = [[]]"
| "split_on sep (c # cs) =
     (if c = sep then [] # split_on sep cs
      else (case split_on sep cs of
              [] \<Rightarrow> [[c]]
            | part # parts \<Rightarrow> (c # part) # parts))"

text \<open>\<open>extract_resource_types\<close>: a set in the source, returned as a list of no fixed order.\<close>

definition extract_resource_types :: "string list \<Rightarrow> string set" where
  "extract_resource_types resources =
     set (map (\<lambda>resource. upper (split_on CHR '':'' resource ! 2))
            (filter (\<lambda>resource. startswith resource ''arn:''
                                \<and> 6 \<le> length (split_on CHR '':'' resource))
               resources))"

definition generate_devops_agent_link :: "config \<Rightarrow> string option \<Rightarrow> string" where
  "generate_devops_agent_link cfg inv_id =
     ''https://devops-agent.console.aws.amazon.com/spaces/'' @ DEVOPS_AGENT_SPACE_ID cfg
       @ ''/investigations/'' @ py_str inv_id @ ''?region='' @ AWS_REGION cfg"

definition generate_cloudwatch_logs_link :: "config \<Rightarrow> string" where
  "generate_cloudwatch_logs_link cfg =
     ''https://console.aws.amazon.com/cloudwatch/home?region='' @ AWS_REGION cfg
       @ ''#logsV2:log-groups/log-group/''
       @ concat (map (\<lambda>c. if c = CHR ''/'' then ''$252F'' else [c])
                   ''/aws/devops-agent/investigations'')"

text \<open>The dictionary \<open>format_investigation_event\<close> builds, before its size is checked.\<close>

definition build_event :: "library \<Rightarrow> config \<Rightarrow> investigation \<Rightarrow> formatted_event" where
  "build_event L cfg investigation =
     \<lparr> ev_event_type = ''investigation_completed'',
       ev_investigation_id = investigation_id investigation,
       ev_client_account_id = CLIENT_ACCOUNT_ID cfg,
       ev_client_name = CLIENT_NAME cfg,
       ev_timestamp = completed_at investigation,
       ev_severity = severity investigation,
       ev_status = ''ROOT_CAUSE_FOUND'',
       ev_summary =
         \<lparr> s_affected_resources = take 5 (affected_resources investigation),
           s_resource_types = extract_resource_types (affected_resources investigation),
           s_duration_minutes = duration_minutes investigation,
           s_root_cause_category = categorize_root_cause (root_cause investigation),
           s_root_cause_brief = redact L (take 200 (root_cause investigation)),
           s_mitigation_status = ''plan_generated'' \<rparr>,
       ev_links =
         \<lparr> devops_agent_investigation =
             generate_devops_agent_link cfg (investigation_id investigation),
           cloudwatch_logs = generate_cloudwatch_logs_link cfg,
           affected_application =
             (case map_of (TAGS cfg) ''application_url'' of None \<Rightarrow> [] | Some u \<Rightarrow> u) \<rparr>,
       ev_tags = TAGS cfg \<rparr>"

text \<open>
  \<open>format_investigation_event\<close>: a warning above 200,000 bytes, a \<open>ValueError\<close> above
  256,000.
\<close>

definition format_investigation_event ::
  "library \<Rightarrow> config \<Rightarrow> investigation \<Rightarrow> (exn + formatted_event) \<times> io list" where
  "format_investigation_event L cfg investigation =
     (let event = build_event L cfg investigation;
          event_size = json_size L event;
          out = (if event_size > 200000 then [Print (WarningLarge event_size)] else [])
      in if event_size > 256000
         then (Inl (ValueError ''Event size exceeds EventBridge limit''), out)
         else (Inr event, out))"

section \<open>Investigation monitor: sending and the handler\<close>

text \<open>
  \<open>send_to_central_eventbridge\<close>, for the \<open>i\<close>-th investigation of the batch: the call
  can raise, and a response that counts a failed entry raises a plain \<open>Exception\<close>.
\<close>

definition send_to_central_eventbridge ::
  "world \<Rightarrow> nat \<Rightarrow> formatted_event \<Rightarrow> exn option \<times> io list" where
  "send_to_central_eventbridge W i event =
     (case put_events W i event of
        PutEventsRaised e \<Rightarrow> (Some e, [PutEvents event])
      | PutEventsResponse failed_entry_count \<Rightarrow>
          (if failed_entry_count > 0
           then (Some (Exception ''Failed to send events''), [PutEvents event])
           else (None, [PutEvents event, Print (SentEvent (ev_investigation_id event)),
                        Print SentSize])))"

text \<open>
  One turn of the handler's loop: the \<open>try\<close> body formats and sends; any exception is
  printed and the loop goes on. The result says whether \<open>processed_count\<close> was
  incremented.
\<close>

definition process_investigation ::
  "library \<Rightarrow> config \<Rightarrow> world \<Rightarrow> nat \<Rightarrow> investigation \<Rightarrow> bool \<times> io list" where
  "process_investigation L cfg W i investigation =
     (case format_investigation_event L cfg investigation of
        (Inl e, out) \<Rightarrow>
          (False, out @ [Print (ErrorProcessing (investigation_id investigation) e)])
      | (Inr formatted_event, out) \<Rightarrow>
          (case send_to_central_eventbridge W i formatted_event of
             (Some e, out') \<Rightarrow>
               (False,
                out @ out' @ [Print (ErrorProcessing (investigation_id investigation) e)])
           | (None, out') \<Rightarrow> (True, out @ out')))"

fun process_investigations ::
  "library \<Rightarrow> config \<Rightarrow> world \<Rightarrow> nat \<Rightarrow> investigation list \<Rightarrow> nat \<times> io list" where
  "process_investigations L cfg W i [] = (0, [])"
| "process_investigations L cfg W i (investigation # rest) =
     (case process_investigation L cfg W i investigation of
        (ok, out) \<Rightarrow>
          (case process_investigations L cfg W (Suc i) rest of
             (processed_count, out') \<Rightarrow>
               ((if ok then Suc processed_count else processed_count), out @ out')))"

text \<open>\<open>max(inv['completed_at'] for inv in completed_investigations)\<close>, on a list with a head.\<close>

definition latest_completed_at :: "investigation \<Rightarrow> investigation list \<Rightarrow> int" where
  "latest_completed_at investigation rest =
     fold max (map completed_at rest) (completed_at investigation)"

text \<open>
  \<open>handler\<close>: the result or the exception it re-raises, what it printed and called, and
  the parameter store's content afterwards. Step 4 of the source is guarded by
  \<open>if completed_investigations\<close>, which holds whenever it is reached, since the empty
  list has returned before.
\<close>

definition handler ::
  "library \<Rightarrow> config \<Rightarrow> world \<Rightarrow> iso_text option
     \<Rightarrow> (exn + body) \<times> io list \<times> iso_text option" where
  "handler L cfg W store =
     (case get_last_processed_time W store of
        Inl e \<Rightarrow> (Inl e, [Print Triggered, GetParameter, Print (ErrorInMonitor e)], store)
      | Inr last_processed_time \<Rightarrow>
          (case get_completed_investigations W last_processed_time of
             (completed_investigations, polled) \<Rightarrow>
               (let started = [Print Triggered, GetParameter,
                               Print (LastProcessedTime last_processed_time)] @ polled
                in case completed_investigations of
                     [] \<Rightarrow>
                       (Inr (NoNewInvestigations (CLIENT_NAME cfg)),
                        started @ [Print NoNewFound], store)
                   | investigation # rest \<Rightarrow>
                       (case process_investigations L cfg W 0 completed_investigations of
                          (processed_count, sent) \<Rightarrow>
                            (let latest_time = latest_completed_at investigation rest;
                                 trace = started
                                   @ [Print (Found (length completed_investigations))]
                                   @ sent @ [PutParameter latest_time]
                             in case update_last_processed_time W latest_time store of
                                  Inl e \<Rightarrow> (Inl e, trace @ [Print (ErrorInMonitor e)], store)
                                | Inr store' \<Rightarrow>
                                    (Inr (Processed processed_count (CLIENT_NAME cfg)),
                                     trace, store'))))))"

section \<open>Investigation monitor: what a trace shows\<close>

text \<open>The events handed to the bus, and the watermarks written, in order.\<close>

fun published :: "io list \<Rightarrow> formatted_event list" where
  "published [] = []"
| "published (PutEvents event # out) = event # published out"
| "published (call # out) = published out"

fun written :: "io list \<Rightarrow> int list" where
  "written [] = []"
| "written (PutParameter timestamp # out) = timestamp # written out"
| "written (call # out) = written out"



text \<open>
  The order on the store's content: no parameter yet is below everything, two
  timestamps are ordered as their instants, and text that is not a timestamp is
  comparable to itself only.
\<close>

fun watermark_le :: "iso_text option \<Rightarrow> iso_text option \<Rightarrow> bool" where
  "watermark_le None s = True"
| "watermark_le (Some (IsoText a)) (Some (IsoText b)) = (a \<le> b)"
| "watermark_le (Some v) s = (s = Some v)"


section \<open>Investigation monitor: sample inputs\<close>

definition sample_library :: library where
  "sample_library =
     \<lparr> json_size = (\<lambda>event. 70000 * length (py_str (ev_investigation_id event))),
       redact = (\<lambda>text. text) \<rparr>"

definition sample_config :: config where
  "sample_config =
     \<lparr> CLIENT_NAME = ''acme'',
       CLIENT_ACCOUNT_ID = ''111122223333'',
       CENTRAL_EVENT_BUS_ARN = ''arn:aws:events:us-east-1:999999999999:event-bus/central'',
       DEVOPS_AGENT_SPACE_ID = ''space-1'',
       AWS_REGION = ''us-east-1'',
       TAGS = [] \<rparr>"

definition completed_record :: "int \<Rightarrow> string \<Rightarrow> log_event" where
  "completed_record ms ident =
     \<lparr> le_timestamp = ms,
       le_message = JsonObject
         \<lparr> p_status = Some ''COMPLETED'',
           p_investigation_id = Some ident,
           p_severity = Some ''HIGH'',
           p_root_cause = Some ''Connection timeout'',
           p_affected_resources = Some [''arn:aws:lambda:us-east-1:111122223333:function:foo''],
           p_duration_minutes = Some 12 \<rparr> \<rparr>"

definition sample_investigation :: "int \<Rightarrow> string \<Rightarrow> investigation" where
  "sample_investigation ms ident =
     \<lparr> investigation_id = Some ident,
       severity = ''HIGH'',
       root_cause = ''Connection timeout'',
       affected_resources = [''arn:aws:lambda:us-east-1:111122223333:function:foo''],
       completed_at = from_millis ms,
       duration_minutes = 12 \<rparr>"

definition sample_world :: "int \<Rightarrow> logs_result \<Rightarrow> put_events_result \<Rightarrow> world" where
  "sample_world now logs bus =
     \<lparr> utcnow = now,
       get_parameter_fault = None,
       filter_log_events = (\<lambda>start. logs),
       put_events = (\<lambda>i event. bus),
       put_parameter_fault = None \<rparr>"

text \<open>A log source that holds the given records and applies the start time.\<close>

definition filtering_world :: "int \<Rightarrow> log_event list \<Rightarrow> put_events_result \<Rightarrow> world" where
  "filtering_world now records bus =
     \<lparr> utcnow = now,
       get_parameter_fault = None,
       filter_log_events =
         (\<lambda>start. LogsResponse (filter (\<lambda>event. start \<le> le_timestamp event) records)),
       put_events = (\<lambda>i event. bus),
       put_parameter_fault = None \<rparr>"

section \<open>Central account: the investigation event and the stored item\<close>

text \<open>
  The \<open>detail\<close> of an inbound event is a dictionary any producer may have written:
  every key the central functions read may be absent. \<open>investigation['k']\<close> on an
  absent key raises \<open>KeyError\<close>; \<open>.get\<close> gives \<open>None\<close> or its default.
\<close>

record detail_summary =
  ds_root_cause_brief :: "string option"
  ds_root_cause_category :: "string option"
  ds_resource_types :: "string list option"
  ds_duration_minutes :: "int option"

record detail_links =
  dl_devops_agent_investigation :: "string option"
  dl_cloudwatch_logs :: "string option"

record detail =
  d_investigation_id :: "string option"
  d_timestamp :: "string option"
  d_client_account_id :: "string option"
  d_client_name :: "string option"
  d_severity :: "string option"
  d_status :: "string option"
  d_summary :: "detail_summary option"
  d_links :: "detail_links option"
  d_tags :: "(string \<times> string) list option"

definition empty_detail :: detail where
  "empty_detail =
     \<lparr> d_investigation_id = None, d_timestamp = None, d_client_account_id = None,
       d_client_name = None, d_severity = None, d_status = None, d_summary = None,
       d_links = None, d_tags = None \<rparr>"

text \<open>The item \<open>store_investigation\<close> writes to the investigations table.\<close>

record item =
  i_investigation_id :: string
  i_timestamp :: string
  i_client_account_id :: string
  i_client_name :: string
  i_severity :: string
  i_status :: string
  i_summary :: detail_summary
  i_links :: detail_links
  i_tags :: "(string \<times> string) list"
  i_processed_at :: int
  i_environment :: string

section \<open>Simple routing: data\<close>

text \<open>The environment variables that \<open>simple_routing/index.py\<close> reads.\<close>

record routing_config =
  ALERT_TOPIC_ARN :: string
  PAGERDUTY_SECRET_NAME :: string
  JIRA_SECRET_NAME :: string
  ENVIRONMENT :: string

text \<open>
  The collaborators of one invocation. A secret is a call that raised, a value that
  \<open>secret_value['SecretString']\<close> and \<open>json.loads\<close> do not turn into a dictionary (with
  the exception that raises), or a dictionary.
\<close>

datatype secret_result =
    SecretRaised exn
  | SecretUnreadable exn
  | SecretConfig "(string \<times> string) list"

record routing_world =
  routing_utcnow :: int
  put_item_fault :: "exn option"
  get_secret_value :: "string \<Rightarrow> secret_result"
  sns_publish_fault :: "exn option"

text \<open>The alert \<open>send_sns_alert\<close> publishes: the topic and the fields of its text.\<close>

record alert =
  a_topic :: string
  a_severity :: string
  a_client_name :: string
  a_investigation_id :: string
  a_root_cause_brief :: string
  a_resource_types :: "string list"
  a_duration_minutes :: int
  a_devops_agent_link :: string
  a_cloudwatch_logs_link :: string
  a_timestamp :: string

datatype routing_log =
    RoutingTriggered
  | EventDump
  | StoredInvestigation string
  | WouldPage string string
  | PageSeverity string
  | PageClient string
  | ErrorPaging exn
  | WouldCreateTicket string string
  | TicketSummary string
  | ErrorCreatingTicket exn
  | SentAlert string
  | RoutingComplete string "string list"
  | ErrorInRouting exn

datatype routing_io =
    RoutingPrint routing_log
  | PutItem item
  | GetSecretValue string
  | SnsPublish alert

record routing_response =
  r_statusCode :: nat
  r_message :: string
  r_investigation_id :: string
  r_actions :: "string list"

section \<open>Simple routing: the actions\<close>

text \<open>
  \<open>store_investigation\<close>: the item's keys are read in the order of the dictionary
  display, the first absent one raises \<open>KeyError\<close>; then \<open>put_item\<close>, which can raise.
  Nothing here is caught.
\<close>

definition store_investigation ::
  "routing_config \<Rightarrow> routing_world \<Rightarrow> detail \<Rightarrow> exn option \<times> routing_io list" where
  "store_investigation cfg W investigation =
     (case d_investigation_id investigation of
        None \<Rightarrow> (Some (KeyError ''investigation_id''), [])
      | Some ident \<Rightarrow>
     (case d_timestamp investigation of
        None \<Rightarrow> (Some (KeyError ''timestamp''), [])
      | Some ts \<Rightarrow>
     (case d_client_account_id investigation of
        None \<Rightarrow> (Some (KeyError ''client_account_id''), [])
      | Some account \<Rightarrow>
     (case d_client_name investigation of
        None \<Rightarrow> (Some (KeyError ''client_name''), [])
      | Some client \<Rightarrow>
     (case d_severity investigation of
        None \<Rightarrow> (Some (KeyError ''severity''), [])
      | Some sev \<Rightarrow>
     (case d_status investigation of
        None \<Rightarrow> (Some (KeyError ''status''), [])
      | Some st \<Rightarrow>
     (case d_summary investigation of
        None \<Rightarrow> (Some (KeyError ''summary''), [])
      | Some summ \<Rightarrow>
     (case d_links investigation of
        None \<Rightarrow> (Some (KeyError ''links''), [])
      | Some lnk \<Rightarrow>
          (let item =
                 \<lparr> i_investigation_id = ident, i_timestamp = ts,
                   i_client_account_id = account, i_client_name = client,
                   i_severity = sev, i_status = st, i_summary = summ, i_links = lnk,
                   i_tags = (case d_tags investigation of None \<Rightarrow> [] | Some t \<Rightarrow> t),
                   i_processed_at = routing_utcnow W,
                   i_environment = ENVIRONMENT cfg \<rparr>
           in case put_item_fault W of
                Some e \<Rightarrow> (Some e, [PutItem item])
              | None \<Rightarrow>
                  (None, [PutItem item,
                          RoutingPrint (StoredInvestigation ident)]))))))))))"

text \<open>
  \<open>page_engineer\<close>: the whole body is inside \<open>try ... except Exception\<close>, whose handler
  prints and passes. The \<open>try\<close> body gives what it printed and the exception that
  ended it, if any.
\<close>

definition page_engineer_body ::
  "routing_config \<Rightarrow> routing_world \<Rightarrow> detail \<Rightarrow> routing_io list \<times> exn option" where
  "page_engineer_body cfg W investigation =
     (case get_secret_value W (PAGERDUTY_SECRET_NAME cfg) of
        SecretRaised e \<Rightarrow> ([], Some e)
      | SecretUnreadable e \<Rightarrow> ([], Some e)
      | SecretConfig pagerduty_config \<Rightarrow>
     (case map_of pagerduty_config ''api_key'' of
        None \<Rightarrow> ([], Some (KeyError ''api_key''))
      | Some api_key \<Rightarrow>
     (case map_of pagerduty_config ''service_id'' of
        None \<Rightarrow> ([], Some (KeyError ''service_id''))
      | Some service_id \<Rightarrow>
     (case d_investigation_id investigation of
        None \<Rightarrow> ([], Some (KeyError ''investigation_id''))
      | Some ident \<Rightarrow>
     (case d_severity investigation of
        None \<Rightarrow> ([RoutingPrint (WouldPage service_id ident)], Some (KeyError ''severity''))
      | Some sev \<Rightarrow>
     (case d_client_name investigation of
        None \<Rightarrow>
          ([RoutingPrint (WouldPage service_id ident), RoutingPrint (PageSeverity sev)],
           Some (KeyError ''client_name''))
      | Some client \<Rightarrow>
          ([RoutingPrint (WouldPage service_id ident), RoutingPrint (PageSeverity sev),
            RoutingPrint (PageClient client)], None)))))))"

definition page_engineer ::
  "routing_config \<Rightarrow> routing_world \<Rightarrow> detail \<Rightarrow> routing_io list" where
  "page_engineer cfg W investigation =
     GetSecretValue (PAGERDUTY_SECRET_NAME cfg) #
     (case page_engineer_body cfg W investigation of
        (out, None) \<Rightarrow> out
      | (out, Some e) \<Rightarrow> out @ [RoutingPrint (ErrorPaging e)])"

text \<open>\<open>create_jira_ticket\<close>: the same shape.\<close>

definition create_jira_ticket_body ::
  "routing_config \<Rightarrow> routing_world \<Rightarrow> detail \<Rightarrow> routing_io list \<times> exn option" where
  "create_jira_ticket_body cfg W investigation =
     (case get_secret_value W (JIRA_SECRET_NAME cfg) of
        SecretRaised e \<Rightarrow> ([], Some e)
      | SecretUnreadable e \<Rightarrow> ([], Some e)
      | SecretConfig jira_config \<Rightarrow>
     (case map_of jira_config ''api_token'' of
        None \<Rightarrow> ([], Some (KeyError ''api_token''))
      | Some api_token \<Rightarrow>
     (case map_of jira_config ''project_key'' of
        None \<Rightarrow> ([], Some (KeyError ''project_key''))
      | Some project_key \<Rightarrow>
     (case d_investigation_id investigation of
        None \<Rightarrow> ([], Some (KeyError ''investigation_id''))
      | Some ident \<Rightarrow>
     (case d_summary investigation of
        None \<Rightarrow>
          ([RoutingPrint (WouldCreateTicket project_key ident)], Some (KeyError ''summary''))
      | Some summ \<Rightarrow>
     (case ds_root_cause_brief summ of
        None \<Rightarrow>
          ([RoutingPrint (WouldCreateTicket project_key ident)],
           Some (KeyError ''root_cause_brief''))
      | Some brief \<Rightarrow>
          ([RoutingPrint (WouldCreateTicket project_key ident),
            RoutingPrint (TicketSummary brief)], None)))))))"

definition create_jira_ticket ::
  "routing_config \<Rightarrow> routing_world \<Rightarrow> detail \<Rightarrow> routing_io list" where
  "create_jira_ticket cfg W investigation =
     GetSecretValue (JIRA_SECRET_NAME cfg) #
     (case create_jira_ticket_body cfg W investigation of
        (out, None) \<Rightarrow> out
      | (out, Some e) \<Rightarrow> out @ [RoutingPrint (ErrorCreatingTicket e)])"

text \<open>
  \<open>send_sns_alert\<close>: the subject and the message read their keys in the order of the
  text; then \<open>sns_client.publish\<close>, which can raise. There is no \<open>try\<close> in this function.
\<close>

definition alert_of :: "routing_config \<Rightarrow> detail \<Rightarrow> exn + alert" where
  "alert_of cfg investigation =
     (case d_severity investigation of
        None \<Rightarrow> Inl (KeyError ''severity'')
      | Some sev \<Rightarrow>
     (case d_client_name investigation of
        None \<Rightarrow> Inl (KeyError ''client_name'')
      | Some client \<Rightarrow>
     (case d_investigation_id investigation of
        None \<Rightarrow> Inl (KeyError ''investigation_id'')
      | Some ident \<Rightarrow>
     (case d_summary investigation of
        None \<Rightarrow> Inl (KeyError ''summary'')
      | Some summ \<Rightarrow>
     (case ds_root_cause_brief summ of
        None \<Rightarrow> Inl (KeyError ''root_cause_brief'')
      | Some brief \<Rightarrow>
     (case ds_resource_types summ of
        None \<Rightarrow> Inl (KeyError ''resource_types'')
      | Some types \<Rightarrow>
     (case ds_duration_minutes summ of
        None \<Rightarrow> Inl (KeyError ''duration_minutes'')
      | Some duration \<Rightarrow>
     (case d_links investigation of
        None \<Rightarrow> Inl (KeyError ''links'')
      | Some lnk \<Rightarrow>
     (case dl_devops_agent_investigation lnk of
        None \<Rightarrow> Inl (KeyError ''devops_agent_investigation'')
      | Some agent_link \<Rightarrow>
     (case dl_cloudwatch_logs lnk of
        None \<Rightarrow> Inl (KeyError ''cloudwatch_logs'')
      | Some logs_link \<Rightarrow>
     (case d_timestamp investigation of
        None \<Rightarrow> Inl (KeyError ''timestamp'')
      | Some ts \<Rightarrow>
          Inr \<lparr> a_topic = ALERT_TOPIC_ARN cfg, a_severity = sev, a_client_name = client,
                a_investigation_id = ident, a_root_cause_brief = brief,
                a_resource_types = types, a_duration_minutes = duration,
                a_devops_agent_link = agent_link, a_cloudwatch_logs_link = logs_link,
                a_timestamp = ts \<rparr>)))))))))))"

definition send_sns_alert ::
  "routing_config \<Rightarrow> routing_world \<Rightarrow> detail \<Rightarrow> exn option \<times> routing_io list" where
  "send_sns_alert cfg W investigation =
     (case alert_of cfg investigation of
        Inl e \<Rightarrow> (Some e, [])
      | Inr a \<Rightarrow>
          (case sns_publish_fault W of
             Some e \<Rightarrow> (Some e, [SnsPublish a])
           | None \<Rightarrow>
               (None, [SnsPublish a, RoutingPrint (SentAlert (a_investigation_id a))])))"

section \<open>Simple routing: the handler\<close>

text \<open>
  The notification channels of the two severity branches. Each gives the actions it
  appended to \<open>actions_taken\<close>, what it printed and called, and the exception that left
  the branch, if any.
\<close>

definition paging_channel ::
  "routing_config \<Rightarrow> routing_world \<Rightarrow> detail \<Rightarrow> string list \<times> routing_io list" where
  "paging_channel cfg W detail =
     (if PAGERDUTY_SECRET_NAME cfg \<noteq> []
      then ([''paged_engineer''], page_engineer cfg W detail)
      else ([], []))"

definition ticketing_channel ::
  "routing_config \<Rightarrow> routing_world \<Rightarrow> detail \<Rightarrow> string list \<times> routing_io list" where
  "ticketing_channel cfg W detail =
     (if JIRA_SECRET_NAME cfg \<noteq> []
      then ([''created_ticket''], create_jira_ticket cfg W detail)
      else ([], []))"

definition route_by_severity ::
  "routing_config \<Rightarrow> routing_world \<Rightarrow> detail \<Rightarrow> string
     \<Rightarrow> (exn + string list) \<times> routing_io list" where
  "route_by_severity cfg W detail sev =
     (if sev = ''CRITICAL'' \<or> sev = ''HIGH''
      then (case paging_channel cfg W detail of
              (paged, out1) \<Rightarrow>
                (case ticketing_channel cfg W detail of
                   (ticketed, out2) \<Rightarrow>
                     (case send_sns_alert cfg W detail of
                        (Some e, out3) \<Rightarrow> (Inl e, out1 @ out2 @ out3)
                      | (None, out3) \<Rightarrow>
                          (Inr (paged @ ticketed @ [''sent_alert'']), out1 @ out2 @ out3))))
      else if sev = ''MEDIUM''
      then (case ticketing_channel cfg W detail of
              (ticketed, out2) \<Rightarrow> (Inr ticketed, out2))
      else (Inr [], []))"

text \<open>
  \<open>handler\<close> of \<open>simple_routing/index.py\<close>: the event's \<open>detail\<close> (an empty dictionary
  when the event has none), the check of \<open>investigation_id\<close>, the store, the routing.
  Whatever is raised inside is printed and raised again.
\<close>

definition routing_handler ::
  "routing_config \<Rightarrow> routing_world \<Rightarrow> detail option
     \<Rightarrow> (exn + routing_response) \<times> routing_io list" where
  "routing_handler cfg W event =
     (let detail = (case event of None \<Rightarrow> empty_detail | Some d \<Rightarrow> d);
          sev = (case d_severity detail of None \<Rightarrow> ''MEDIUM'' | Some s \<Rightarrow> s);
          started = [RoutingPrint RoutingTriggered, RoutingPrint EventDump]
      in case d_investigation_id detail of
           None \<Rightarrow>
             (Inl (ValueError ''No investigation_id in event''),
              started
                @ [RoutingPrint (ErrorInRouting (ValueError ''No investigation_id in event''))])
         | Some ident \<Rightarrow>
             (if ident = []
              then (Inl (ValueError ''No investigation_id in event''),
                    started
                      @ [RoutingPrint
                           (ErrorInRouting (ValueError ''No investigation_id in event''))])
              else (case store_investigation cfg W detail of
                      (Some e, stored) \<Rightarrow>
                        (Inl e, started @ stored @ [RoutingPrint (ErrorInRouting e)])
                    | (None, stored) \<Rightarrow>
                        (case route_by_severity cfg W detail sev of
                           (Inl e, routed) \<Rightarrow>
                             (Inl e,
                              started @ stored @ routed @ [RoutingPrint (ErrorInRouting e)])
                         | (Inr actions_taken, routed) \<Rightarrow>
                             (Inr \<lparr> r_statusCode = 200,
                                    r_message = ''Routing successful'',
                                    r_investigation_id = ident,
                                    r_actions = actions_taken \<rparr>,
                              started @ stored @ routed
                                @ [RoutingPrint (RoutingComplete ident actions_taken)])))))"

text \<open>What a routing trace shows: the items stored, the secrets read, the alerts sent.\<close>

fun items_stored :: "routing_io list \<Rightarrow> item list" where
  "items_stored [] = []"
| "items_stored (PutItem i # out) = i # items_stored out"
| "items_stored (call # out) = items_stored out"

fun secrets_read :: "routing_io list \<Rightarrow> string list" where
  "secrets_read [] = []"
| "secrets_read (GetSecretValue name # out) = name # secrets_read out"
| "secrets_read (call # out) = secrets_read out"

fun alerts_published :: "routing_io list \<Rightarrow> alert list" where
  "alerts_published [] = []"
| "alerts_published (SnsPublish a # out) = a # alerts_published out"
| "alerts_published (call # out) = alerts_published out"

section \<open>Simple routing: sample inputs\<close>

definition sample_detail :: "string \<Rightarrow> detail" where
  "sample_detail sev =
     \<lparr> d_investigation_id = Some ''i-1'',
       d_timestamp = Some ''2024-01-01T00:00:00'',
       d_client_account_id = Some ''111122223333'',
       d_client_name = Some ''acme'',
       d_severity = Some sev,
       d_status = Some ''ROOT_CAUSE_FOUND'',
       d_summary = Some \<lparr> ds_root_cause_brief = Some ''Connection timeout'',
                           ds_root_cause_category = Some ''network_connectivity'',
                           ds_resource_types = Some [''LAMBDA''],
                           ds_duration_minutes = Some 12 \<rparr>,
       d_links = Some \<lparr> dl_devops_agent_investigation = Some ''https://agent'',
                         dl_cloudwatch_logs = Some ''https://logs'' \<rparr>,
       d_tags = None \<rparr>"

definition sample_routing_config :: "string \<Rightarrow> string \<Rightarrow> routing_config" where
  "sample_routing_config pagerduty jira =
     \<lparr> ALERT_TOPIC_ARN = ''arn:aws:sns:us-east-1:999999999999:alerts'',
       PAGERDUTY_SECRET_NAME = pagerduty,
       JIRA_SECRET_NAME = jira,
       ENVIRONMENT = ''dev'' \<rparr>"

definition sample_routing_world :: "secret_result \<Rightarrow> exn option \<Rightarrow> routing_world" where
  "sample_routing_world secret sns =
     \<lparr> routing_utcnow = 0,
       put_item_fault = None,
       get_secret_value = (\<lambda>name. secret),
       sns_publish_fault = sns \<rparr>"

section \<open>Pattern detector: data\<close>

text \<open>
  The environment variables that \<open>pattern_detector/index.py\<close> reads (its
  \<open>ALERT_TOPIC_ARN\<close> is named apart from the routing function's).
\<close>

record detector_config =
  PATTERN_ALERT_TOPIC_ARN :: string
  BEDROCK_MODEL_ID :: string

text \<open>
  What \<open>json.loads\<close> makes of the classifier's text: a dictionary with the keys the
  detector reads, each possibly absent, or a JSON value that is not a dictionary (on
  which \<open>.get\<close> raises \<open>AttributeError\<close>).
\<close>

record analysis =
  patterns_detected :: "bool option"
  pattern_description :: "string option"
  affected_clients :: "string list option"
  recommended_actions :: "string list option"
  escalation_needed :: "bool option"
  confidence :: "string option"
  error :: "string option"

datatype json_value = JsonDict analysis | JsonOther

text \<open>The prompt, by the list of summaries it interpolates.\<close>

record prompt_entry =
  pe_client :: string
  pe_severity :: string
  pe_root_cause_category :: string
  pe_resource_types :: "string list"
  pe_timestamp :: string

text \<open>
  The collaborators of one invocation: the table's answer to a scan with a cutoff, the
  classifier's answer to a prompt (the call raised, the response body was not the
  expected JSON, or the text of its first content block), and the alert topic.
  \<open>json.loads\<close> on the classifier's text is a parameter of the functions that use it,
  with \<open>None\<close> for \<open>JSONDecodeError\<close>.
\<close>

datatype scan_result = ScanRaised exn | ScanItems "item list"

datatype invoke_result = InvokeRaised exn | BodyUnreadable exn | ResponseText string

record detector_world =
  detector_utcnow :: int
  table_scan :: "int \<Rightarrow> scan_result"
  invoke_model :: "prompt_entry list \<Rightarrow> invoke_result"
  pattern_publish_fault :: "exn option"

record pattern_alert =
  pa_topic :: string
  pa_pattern :: string
  pa_affected_clients :: "string list"
  pa_recommended_actions :: "string list"
  pa_escalation_needed :: bool
  pa_confidence :: string

datatype detector_log =
    DetectionTriggered
  | FoundRecent nat
  | NotEnough
  | ErrorCallingBedrock exn
  | ErrorParsing
  | ResponseTextDump string
  | SentPatternAlert
  | ErrorInDetection exn

datatype detector_io =
    DetectorPrint detector_log
  | Scan int
  | InvokeModel "prompt_entry list"
  | PatternPublish pattern_alert

record detector_response =
  pr_statusCode :: nat
  pr_message :: string
  pr_patterns_detected :: "bool option"
  pr_investigation_id :: "string option"

section \<open>Pattern detector: the classifier call\<close>

text \<open>\<open>str(e)\<close>, the text of an exception.\<close>

fun exn_str :: "exn \<Rightarrow> string" where
  "exn_str (ValueError m) = m"
| "exn_str (KeyError k) = [CHR 0x27] @ k @ [CHR 0x27]"
| "exn_str (AttributeError m) = m"
| "exn_str JSONDecodeError = ''Expecting value''"
| "exn_str ParameterNotFound = ''ParameterNotFound''"
| "exn_str ResourceNotFoundException = ''ResourceNotFoundException''"
| "exn_str (ClientError m) = m"
| "exn_str (Exception m) = m"

text \<open>
  \<open>str.strip()\<close> removes the white space of both ends: among the code points below
  256 these are 9-13, 28-32, 133 and 160.
\<close>

definition is_space :: "char \<Rightarrow> bool" where
  "is_space c =
     (let n = (of_char c :: nat)
      in (9 \<le> n \<and> n \<le> 13) \<or> (28 \<le> n \<and> n \<le> 32) \<or> n = 133 \<or> n = 160)"

definition strip :: "string \<Rightarrow> string" where
  "strip s = rev (dropWhile is_space (rev (dropWhile is_space s)))"

definition endswith :: "string \<Rightarrow> string \<Rightarrow> bool" where
  "endswith s p = startswith (rev s) (rev p)"

definition code_fence :: string where
  "code_fence = [CHR 0x60, CHR 0x60, CHR 0x60]"

text \<open>The text \<open>parse_bedrock_response\<close> hands to \<open>json.loads\<close>.\<close>

definition cleaned_response :: "string \<Rightarrow> string" where
  "cleaned_response response_text =
     (let cleaned = strip response_text;
          cleaned = (if startswith cleaned (code_fence @ ''json'') then drop 7 cleaned
                     else cleaned);
          cleaned = (if endswith cleaned code_fence
                     then take (length cleaned - 3) cleaned else cleaned)
      in strip cleaned)"

definition failed_analysis :: "string \<Rightarrow> analysis" where
  "failed_analysis message =
     \<lparr> patterns_detected = Some False, pattern_description = None,
       affected_clients = None, recommended_actions = None, escalation_needed = None,
       confidence = None, error = Some message \<rparr>"

text \<open>\<open>parse_bedrock_response\<close>: a \<open>JSONDecodeError\<close> is caught here.\<close>

definition parse_bedrock_response ::
  "(string \<Rightarrow> json_value option) \<Rightarrow> string \<Rightarrow> json_value \<times> detector_io list" where
  "parse_bedrock_response loads response_text =
     (case loads (cleaned_response response_text) of
        Some analysis \<Rightarrow> (analysis, [])
      | None \<Rightarrow>
          (JsonDict (failed_analysis ''Failed to parse Bedrock response''),
           [DetectorPrint ErrorParsing, DetectorPrint (ResponseTextDump response_text)]))"

text \<open>\<open>build_analysis_prompt\<close>: an item whose summary lacks a key raises \<open>KeyError\<close>.\<close>

fun build_analysis_prompt :: "item list \<Rightarrow> exn + prompt_entry list" where
  "build_analysis_prompt [] = Inr []"
| "build_analysis_prompt (i # investigations) =
     (case ds_root_cause_category (i_summary i) of
        None \<Rightarrow> Inl (KeyError ''root_cause_category'')
      | Some category \<Rightarrow>
     (case ds_resource_types (i_summary i) of
        None \<Rightarrow> Inl (KeyError ''resource_types'')
      | Some types \<Rightarrow>
     (case build_analysis_prompt investigations of
        Inl e \<Rightarrow> Inl e
      | Inr entries \<Rightarrow>
          Inr (\<lparr> pe_client = i_client_name i, pe_severity = i_severity i,
                 pe_root_cause_category = category, pe_resource_types = types,
                 pe_timestamp = i_timestamp i \<rparr> # entries))))"

text \<open>
  \<open>analyze_patterns_with_bedrock\<close>: the prompt is built before the \<open>try\<close>; the call,
  the reading of the response body and the parse are inside it, and
  \<open>except Exception\<close> turns whatever they raise into an analysis with
  \<open>patterns_detected\<close> false and the exception's text as \<open>error\<close>.
\<close>

definition analyze_patterns_with_bedrock ::
  "(string \<Rightarrow> json_value option) \<Rightarrow> detector_world \<Rightarrow> item list
     \<Rightarrow> (exn + json_value) \<times> detector_io list" where
  "analyze_patterns_with_bedrock loads W investigations =
     (case build_analysis_prompt investigations of
        Inl e \<Rightarrow> (Inl e, [])
      | Inr prompt \<Rightarrow>
          (case invoke_model W prompt of
             InvokeRaised e \<Rightarrow>
               (Inr (JsonDict (failed_analysis (exn_str e))),
                [InvokeModel prompt, DetectorPrint (ErrorCallingBedrock e)])
           | BodyUnreadable e \<Rightarrow>
               (Inr (JsonDict (failed_analysis (exn_str e))),
                [InvokeModel prompt, DetectorPrint (ErrorCallingBedrock e)])
           | ResponseText analysis_text \<Rightarrow>
               (case parse_bedrock_response loads analysis_text of
                  (analysis, out) \<Rightarrow> (Inr analysis, InvokeModel prompt # out))))"

section \<open>Pattern detector: the alert and the handler\<close>

text \<open>\<open>alert_senior_engineer\<close>: every key is read with a default; the publish can raise.\<close>

definition alert_senior_engineer ::
  "detector_config \<Rightarrow> detector_world \<Rightarrow> analysis \<Rightarrow> exn option \<times> detector_io list" where
  "alert_senior_engineer cfg W a =
     (let message =
            \<lparr> pa_topic = PATTERN_ALERT_TOPIC_ARN cfg,
              pa_pattern = (case pattern_description a of None \<Rightarrow> ''Unknown'' | Some p \<Rightarrow> p),
              pa_affected_clients = (case affected_clients a of None \<Rightarrow> [] | Some c \<Rightarrow> c),
              pa_recommended_actions =
                (case recommended_actions a of None \<Rightarrow> [] | Some r \<Rightarrow> r),
              pa_escalation_needed =
                (case escalation_needed a of None \<Rightarrow> False | Some b \<Rightarrow> b),
              pa_confidence = (case confidence a of None \<Rightarrow> ''UNKNOWN'' | Some c \<Rightarrow> c) \<rparr>
      in case pattern_publish_fault W of
           Some e \<Rightarrow> (Some e, [PatternPublish message])
         | None \<Rightarrow> (None, [PatternPublish message, DetectorPrint SentPatternAlert]))"

text \<open>\<open>query_recent_investigations(hours=24)\<close>: one scan, with the cutoff 24 hours back.\<close>

definition query_recent_investigations ::
  "detector_world \<Rightarrow> (exn + item list) \<times> detector_io list" where
  "query_recent_investigations W =
     (let cutoff_time = detector_utcnow W - 24 * 3600000000
      in case table_scan W cutoff_time of
           ScanRaised e \<Rightarrow> (Inl e, [Scan cutoff_time])
         | ScanItems items \<Rightarrow> (Inr items, [Scan cutoff_time]))"

text \<open>
  The part of the handler after the volume check: the analysis, the alert when
  \<open>patterns_detected\<close> is true, the response.
\<close>

definition analyze_and_alert ::
  "(string \<Rightarrow> json_value option) \<Rightarrow> detector_config \<Rightarrow> detector_world \<Rightarrow> string
     \<Rightarrow> item list \<Rightarrow> (exn + detector_response) \<times> detector_io list" where
  "analyze_and_alert loads cfg W ident recent_investigations =
     (case analyze_patterns_with_bedrock loads W recent_investigations of
        (Inl e, out) \<Rightarrow> (Inl e, out)
      | (Inr JsonOther, out) \<Rightarrow> (Inl (AttributeError ''get''), out)
      | (Inr (JsonDict a), out) \<Rightarrow>
          (let response =
                 \<lparr> pr_statusCode = 200, pr_message = ''Pattern analysis complete'',
                   pr_patterns_detected =
                     Some (case patterns_detected a of None \<Rightarrow> False | Some b \<Rightarrow> b),
                   pr_investigation_id = Some ident \<rparr>
           in if patterns_detected a = Some True
              then (case alert_senior_engineer cfg W a of
                      (Some e, out') \<Rightarrow> (Inl e, out @ out')
                    | (None, out') \<Rightarrow> (Inr response, out @ out'))
              else (Inr response, out)))"

text \<open>
  \<open>handler\<close> of \<open>pattern_detector/index.py\<close>. Whatever is raised inside is printed and
  raised again.
\<close>

definition pattern_handler ::
  "(string \<Rightarrow> json_value option) \<Rightarrow> detector_config \<Rightarrow> detector_world \<Rightarrow> detail option
     \<Rightarrow> (exn + detector_response) \<times> detector_io list" where
  "pattern_handler loads cfg W event =
     (let detail = (case event of None \<Rightarrow> empty_detail | Some d \<Rightarrow> d);
          missing = ValueError ''No investigation_id in event''
      in case d_investigation_id detail of
           None \<Rightarrow>
             (Inl missing,
              [DetectorPrint DetectionTriggered, DetectorPrint (ErrorInDetection missing)])
         | Some ident \<Rightarrow>
             (if ident = []
              then (Inl missing,
                    [DetectorPrint DetectionTriggered,
                     DetectorPrint (ErrorInDetection missing)])
              else (case query_recent_investigations W of
                      (Inl e, out) \<Rightarrow>
                        (Inl e,
                         DetectorPrint DetectionTriggered # out
                           @ [DetectorPrint (ErrorInDetection e)])
                    | (Inr recent_investigations, out) \<Rightarrow>
                        (let started = DetectorPrint DetectionTriggered # out
                               @ [DetectorPrint (FoundRecent (length recent_investigations))]
                         in if length recent_investigations < 3
                            then (Inr \<lparr> pr_statusCode = 200,
                                        pr_message = ''Insufficient data for pattern detection'',
                                        pr_patterns_detected = None,
                                        pr_investigation_id = None \<rparr>,
                                  started @ [DetectorPrint NotEnough])
                            else (case analyze_and_alert loads cfg W ident
                                         recent_investigations of
                                    (Inl e, out') \<Rightarrow>
                                      (Inl e,
                                       started @ out' @ [DetectorPrint (ErrorInDetection e)])
                                  | (Inr response, out') \<Rightarrow>
                                      (Inr response, started @ out'))))))"

text \<open>What a detector trace shows: the classifier calls and the alerts.\<close>

fun model_calls :: "detector_io list \<Rightarrow> prompt_entry list list" where
  "model_calls [] = []"
| "model_calls (InvokeModel prompt # out) = prompt # model_calls out"
| "model_calls (call # out) = model_calls out"

fun pattern_alerts :: "detector_io list \<Rightarrow> pattern_alert list" where
  "pattern_alerts [] = []"
| "pattern_alerts (PatternPublish message # out) = message # pattern_alerts out"
| "pattern_alerts (call # out) = pattern_alerts out"



section \<open>Pattern detector: sample inputs\<close>

definition sample_item :: "string \<Rightarrow> item" where
  "sample_item client =
     \<lparr> i_investigation_id = ''i-1'',
       i_timestamp = ''2024-01-01T00:00:00'',
       i_client_account_id = ''111122223333'',
       i_client_name = client,
       i_severity = ''HIGH'',
       i_status = ''ROOT_CAUSE_FOUND'',
       i_summary = \<lparr> ds_root_cause_brief = Some ''Connection timeout'',
                      ds_root_cause_category = Some ''network_connectivity'',
                      ds_resource_types = Some [''LAMBDA''],
                      ds_duration_minutes = Some 12 \<rparr>,
       i_links = \<lparr> dl_devops_agent_investigation = Some ''https://agent'',
                    dl_cloudwatch_logs = Some ''https://logs'' \<rparr>,
       i_tags = [],
       i_processed_at = 0,
       i_environment = ''dev'' \<rparr>"

definition sample_detector_config :: detector_config where
  "sample_detector_config =
     \<lparr> PATTERN_ALERT_TOPIC_ARN = ''arn:aws:sns:us-east-1:999999999999:alerts'',
       BEDROCK_MODEL_ID = ''model-1'' \<rparr>"

definition sample_detector_world :: "item list \<Rightarrow> invoke_result \<Rightarrow> detector_world" where
  "sample_detector_world items answer =
     \<lparr> detector_utcnow = 86400000000,
       table_scan = (\<lambda>cutoff. ScanItems items),
       invoke_model = (\<lambda>prompt. answer),
       pattern_publish_fault = None \<rparr>"

text \<open>A parser for the samples: it knows one text, and rejects every other.\<close>

definition sample_loads :: "string \<Rightarrow> json_value option" where
  "sample_loads text =
     (if text = ''{}''
      then Some (JsonDict \<lparr> patterns_detected = None, pattern_description = None,
                           affected_clients = None, recommended_actions = None,
                           escalation_needed = None, confidence = None, error = None \<rparr>)
      else None)"

section \<open>Root-cause categorisation: properties\<close>

lemma startswith_iff: "startswith s p \<longleftrightarrow> (\<exists>q. s = p @ q)"
  by (induction s p rule: startswith.induct) auto

lemma contains_iff: "contains k s \<longleftrightarrow> is_substring k s"
proof (induction s)
  case Nil
  then show ?case by (auto simp: is_substring_def)
next
  case (Cons c cs)
  show ?case
  proof
    assume "contains k (c # cs)"
    then consider "startswith (c # cs) k" | "contains k cs" by auto
    then show "is_substring k (c # cs)"
    proof cases
      case 1
      then obtain q where "c # cs = k @ q" by (auto simp: startswith_iff)
      then have "c # cs = [] @ k @ q" by simp
      then show ?thesis unfolding is_substring_def by blast
    next
      case 2
      then obtain p q where "cs = p @ k @ q"
        using Cons.IH by (auto simp: is_substring_def)
      then have "c # cs = (c # p) @ k @ q" by simp
      then show ?thesis unfolding is_substring_def by blast
    qed
  next
    assume "is_substring k (c # cs)"
    then obtain p q where pq: "c # cs = p @ k @ q"
      by (auto simp: is_substring_def)
    show "contains k (c # cs)"
    proof (cases p)
      case Nil
      with pq have "startswith (c # cs) k" by (auto simp: startswith_iff)
      then show ?thesis by simp
    next
      case (Cons a p')
      with pq have "cs = p' @ k @ q" by simp
      then have "contains k cs" using Cons.IH by (auto simp: is_substring_def)
      then show ?thesis by simp
    qed
  qed
qed

lemma any_keyword_iff:
  "any_keyword ks text \<longleftrightarrow> (\<exists>k \<in> set ks. is_substring k text)"
  by (simp add: any_keyword_def list_ex_iff contains_iff)

text \<open>
  C9. Root-cause categorisation is a function of the text alone: it lowers the text's
  capitals, searches it for the keywords of five fixed lists in the fixed order
  network_connectivity, resource_exhaustion, permissions_issue, deployment_issue,
  dependency_failure, answers with the first category one of whose keywords is a
  substring (also when a later category matches too), and answers unknown when no
  keyword occurs. Two texts that differ only in the case of their letters get the
  same category.
\<close>

theorem categorize_root_cause_first_match:
  "categorize_root_cause text = first_matching_category text
   \<and> (lower text' = lower text \<longrightarrow> categorize_root_cause text' = categorize_root_cause text)"
proof
  show "categorize_root_cause text = first_matching_category text"
    by (simp add: categorize_root_cause_def first_matching_category_def keyword_table_def
        category_matches_def any_keyword_iff Let_def)
  show "lower text' = lower text \<longrightarrow> categorize_root_cause text' = categorize_root_cause text"
    by (simp add: categorize_root_cause_def)
qed

theorem categorize_root_cause_first_match_witness:
  "first_matching_category ''Disk full after Connection TIMEOUT'' = ''network_connectivity''
   \<and> first_matching_category ''Out of MEMORY; access denied'' = ''resource_exhaustion''
   \<and> first_matching_category ''nothing to see'' = ''unknown''
   \<and> categorize_root_cause ''ROLLOUT of new build'' = categorize_root_cause ''rollout OF NEW build''"
proof -
  have l: "lower ''ROLLOUT of new build'' = lower ''rollout OF NEW build''"
    by (simp add: lower_def lower_char_def is_upper_def)
  have a: "categorize_root_cause ''Disk full after Connection TIMEOUT'' = ''network_connectivity''"
    by (simp add: categorize_root_cause_def any_keyword_def lower_def lower_char_def is_upper_def)
  have b: "categorize_root_cause ''Out of MEMORY; access denied'' = ''resource_exhaustion''"
    by (simp add: categorize_root_cause_def any_keyword_def lower_def lower_char_def is_upper_def)
  have c: "categorize_root_cause ''nothing to see'' = ''unknown''"
    by (simp add: categorize_root_cause_def any_keyword_def lower_def lower_char_def is_upper_def)
  show ?thesis
    using categorize_root_cause_first_match
            [of "''Disk full after Connection TIMEOUT''" "''x''"]
          categorize_root_cause_first_match
            [of "''Out of MEMORY; access denied''" "''x''"]
          categorize_root_cause_first_match [of "''nothing to see''" "''x''"]
          categorize_root_cause_first_match
            [of "''rollout OF NEW build''" "''ROLLOUT of new build''"]
          l a b c
    by simp
qed

section \<open>Investigation monitor: lemmas\<close>

lemma published_append: "published (a @ b) = published a @ published b"
  by (induction a rule: published.induct) auto


lemma format_cases:
  "format_investigation_event L cfg x =
     (if json_size L (build_event L cfg x) > 256000
      then (Inl (ValueError ''Event size exceeds EventBridge limit''),
            [Print (WarningLarge (json_size L (build_event L cfg x)))])
      else if json_size L (build_event L cfg x) > 200000
      then (Inr (build_event L cfg x),
            [Print (WarningLarge (json_size L (build_event L cfg x)))])
      else (Inr (build_event L cfg x), []))"
  by (simp add: format_investigation_event_def Let_def)

lemma published_send:
  "published (snd (send_to_central_eventbridge W i ev)) = [ev]"
  by (simp add: send_to_central_eventbridge_def split: put_events_result.splits)

lemma published_process_one:
  "published (snd (process_investigation L cfg W i x)) =
     (if json_size L (build_event L cfg x) \<le> 256000 then [build_event L cfg x] else [])"
  using published_send [of W i "build_event L cfg x"]
  by (auto simp: process_investigation_def format_cases published_append
           split: prod.splits option.splits)

lemma published_process_all:
  "published (snd (process_investigations L cfg W i xs)) =
     map (build_event L cfg)
       (filter (\<lambda>x. json_size L (build_event L cfg x) \<le> 256000) xs)"
proof (induction xs arbitrary: i)
  case Nil
  then show ?case by simp
next
  case (Cons x xs)
  show ?case
    using Cons.IH [of "Suc i"] published_process_one [of L cfg W i x]
    by (auto simp: published_append split: prod.splits)
qed
















lemma fold_max_ge: "(a::int) \<le> fold max xs a"
proof (induction xs arbitrary: a)
  case Nil
  then show ?case by simp
next
  case (Cons b xs)
  have "max b a \<le> fold max xs (max b a)" by (rule Cons.IH)
  then show ?case by simp
qed


lemma fold_max_upper: "y \<in> set xs \<Longrightarrow> (y::int) \<le> fold max xs a"
proof (induction xs arbitrary: a)
  case Nil
  then show ?case by simp
next
  case (Cons b xs)
  show ?case
  proof (cases "y = b")
    case True
    have "max b a \<le> fold max xs (max b a)" by (rule fold_max_ge)
    with True show ?thesis by simp
  next
    case False
    with Cons.prems have "y \<in> set xs" by simp
    from Cons.IH [OF this] show ?thesis by simp
  qed
qed


lemma latest_completed_at_ge:
  "y \<in> set (x # rest) \<Longrightarrow> completed_at y \<le> latest_completed_at x rest"
  using fold_max_ge [of "completed_at x" "map completed_at rest"]
        fold_max_upper [of "completed_at y" "map completed_at rest" "completed_at x"]
  by (auto simp: latest_completed_at_def)


lemmas monitor_defs =
  handler_def get_last_processed_time_def get_completed_investigations_def
  to_millis_def from_millis_def investigation_of_def process_investigation_def
  format_investigation_event_def build_event_def send_to_central_eventbridge_def
  update_last_processed_time_def latest_completed_at_def py_str_def Let_def

lemmas sample_defs =
  sample_world_def sample_config_def sample_library_def completed_record_def
  sample_investigation_def filtering_world_def

lemma published_scan_out:
  "scan_events evs acc = (xs, out, r) \<Longrightarrow> published out = []"
proof (induction evs arbitrary: acc xs out r)
  case Nil
  then show ?case by simp
next
  case (Cons e evs)
  show ?case
  proof (cases "le_message e")
    case NotJson
    obtain xs' out' r' where s: "scan_events evs acc = (xs', out', r')"
      by (cases "scan_events evs acc")
    from Cons.IH [OF s] have "published out' = []" .
    with Cons.prems NotJson s show ?thesis by auto
  next
    case JsonNotObject
    with Cons.prems show ?thesis by auto
  next
    case (JsonObject d)
    with Cons.prems Cons.IH show ?thesis by (auto split: if_splits)
  qed
qed


lemma published_poll: "published (snd (get_completed_investigations W since)) = []"
proof (cases since)
  case (NotIso s)
  then show ?thesis by (simp add: get_completed_investigations_def)
next
  case (IsoText t)
  show ?thesis
  proof (cases "filter_log_events W (to_millis t)")
    case (LogsRaised e)
    with IsoText show ?thesis by (simp add: get_completed_investigations_def Let_def)
  next
    case (LogsResponse evs)
    obtain xs out r where s: "scan_events evs [] = (xs, out, r)"
      by (cases "scan_events evs []")
    from published_scan_out [OF s] have "published out = []" .
    with IsoText LogsResponse s show ?thesis
      by (cases r) (simp_all add: get_completed_investigations_def Let_def published_append)
  qed
qed




text \<open>The handler, case by case.\<close>

lemma handler_no_investigations:
  assumes "get_last_processed_time W store = Inr since"
    and "get_completed_investigations W since = ([], polled)"
  shows "handler L cfg W store =
           (Inr (NoNewInvestigations (CLIENT_NAME cfg)),
            [Print Triggered, GetParameter, Print (LastProcessedTime since)] @ polled
              @ [Print NoNewFound], store)"
  using assms by (simp add: handler_def)

lemma handler_some_investigations:
  assumes "get_last_processed_time W store = Inr since"
    and "get_completed_investigations W since = (x # rest, polled)"
    and "process_investigations L cfg W 0 (x # rest) = (n, sent)"
  shows "handler L cfg W store =
           (case put_parameter_fault W of
              Some e \<Rightarrow>
                (Inl e,
                 [Print Triggered, GetParameter, Print (LastProcessedTime since)] @ polled
                   @ [Print (Found (length (x # rest)))] @ sent
                   @ [PutParameter (latest_completed_at x rest)]
                   @ [Print (ErrorInMonitor e)], store)
            | None \<Rightarrow>
                (Inr (Processed n (CLIENT_NAME cfg)),
                 [Print Triggered, GetParameter, Print (LastProcessedTime since)] @ polled
                   @ [Print (Found (length (x # rest)))] @ sent
                   @ [PutParameter (latest_completed_at x rest)],
                 Some (IsoText (latest_completed_at x rest))))"
  using assms
  by (cases "put_parameter_fault W")
     (simp_all add: handler_def update_last_processed_time_def Let_def)

lemma handler_read_fault:
  assumes "get_last_processed_time W store = Inl e"
  shows "handler L cfg W store =
           (Inl e, [Print Triggered, GetParameter, Print (ErrorInMonitor e)], store)"
  using assms by (simp add: handler_def)

lemma published_handler:
  "published (fst (snd (handler L cfg W store))) = []
   \<or> (\<exists>since. get_last_processed_time W store = Inr since
        \<and> published (fst (snd (handler L cfg W store))) =
            published (snd (process_investigations L cfg W 0
                              (fst (get_completed_investigations W since)))))"
proof (cases "get_last_processed_time W store")
  case (Inl e)
  then show ?thesis by (simp add: handler_read_fault)
next
  case (Inr since)
  obtain xs polled where p: "get_completed_investigations W since = (xs, polled)"
    by (cases "get_completed_investigations W since")
  have pp: "published polled = []" using published_poll [of W since] p by simp
  show ?thesis
  proof (cases xs)
    case Nil
    with Inr p pp show ?thesis
      by (simp add: handler_no_investigations published_append)
  next
    case (Cons x rest)
    obtain n sent where s: "process_investigations L cfg W 0 (x # rest) = (n, sent)"
      by (cases "process_investigations L cfg W 0 (x # rest)")
    have "published (fst (snd (handler L cfg W store))) = published sent"
      using handler_some_investigations [OF Inr p [unfolded Cons] s] pp
      by (cases "put_parameter_fault W") (simp_all add: published_append)
    with Inr p Cons s show ?thesis by simp
  qed
qed



lemma watermark_le_not_iso:
  "watermark_le (Some (NotIso n)) s \<longleftrightarrow> s = Some (NotIso n)"
  by simp






section \<open>Investigation monitor: the watermark after a failed publish\<close>

text \<open>
  C1. The claim: the watermark is written only when the cycle forwarded at least one
  event, and to the greatest \<open>completed_at\<close> among the investigations whose publish
  succeeded. The code at one input: the stored watermark is the epoch, the log source
  returns one completed investigation of millisecond 7, and the bus answers its
  publish with one failed entry. The handler reports zero processed investigations,
  and yet writes the watermark, to the \<open>completed_at\<close> of the investigation it failed
  to forward.
\<close>

theorem handler_writes_watermark_after_failed_publish:
  "fst (handler sample_library sample_config
          (sample_world 0 (LogsResponse [completed_record 7 ''i-1'']) (PutEventsResponse 1))
          (Some (IsoText 0))) = Inr (Processed 0 ''acme'')
   \<and> written (fst (snd (handler sample_library sample_config
          (sample_world 0 (LogsResponse [completed_record 7 ''i-1'']) (PutEventsResponse 1))
          (Some (IsoText 0))))) = [7000]
   \<and> snd (snd (handler sample_library sample_config
          (sample_world 0 (LogsResponse [completed_record 7 ''i-1'']) (PutEventsResponse 1))
          (Some (IsoText 0)))) = Some (IsoText 7000)"
  by (simp add: monitor_defs sample_defs)

section \<open>Investigation monitor: faults of the log query\<close>

lemma log_fault_poll:
  assumes "filter_log_events W (to_millis t) = LogsRaised e"
  shows "get_completed_investigations W (IsoText t) =
           ([], FilterLogEvents (to_millis t) #
                (if e = ResourceNotFoundException
                 then [Print LogGroupNotFound, Print ExpectedWithoutLogs]
                 else [Print (ErrorQuerying e)]))"
  using assms by (simp add: get_completed_investigations_def Let_def)

text \<open>
  C3, as amended. The poller treats a missing log group as a normal empty result, and
  every other fault the log query raises is caught and printed by the poller as well,
  which returns the empty list; the invocation then ends normally with "No new
  investigations", publishes nothing and leaves the stored watermark as it was.
\<close>

theorem log_query_fault_gives_no_new_investigations:
  assumes "get_last_processed_time W store = Inr (IsoText t)"
    and "filter_log_events W (to_millis t) = LogsRaised e"
  shows "get_completed_investigations W (IsoText t) =
           ([], FilterLogEvents (to_millis t) #
                (if e = ResourceNotFoundException
                 then [Print LogGroupNotFound, Print ExpectedWithoutLogs]
                 else [Print (ErrorQuerying e)]))
         \<and> handler L cfg W store =
             (Inr (NoNewInvestigations (CLIENT_NAME cfg)),
              [Print Triggered, GetParameter, Print (LastProcessedTime (IsoText t)),
               FilterLogEvents (to_millis t)]
              @ (if e = ResourceNotFoundException
                 then [Print LogGroupNotFound, Print ExpectedWithoutLogs]
                 else [Print (ErrorQuerying e)])
              @ [Print NoNewFound],
              store)"
  using assms(1) log_fault_poll [OF assms(2)]
  by (simp add: handler_def)

theorem log_query_fault_gives_no_new_investigations_witness:
  "handler sample_library sample_config
     (sample_world 0 (LogsRaised ResourceNotFoundException) (PutEventsResponse 0))
     (Some (IsoText 5000))
   = (Inr (NoNewInvestigations ''acme''),
      [Print Triggered, GetParameter, Print (LastProcessedTime (IsoText 5000)),
       FilterLogEvents 5, Print LogGroupNotFound, Print ExpectedWithoutLogs,
       Print NoNewFound],
      Some (IsoText 5000))"
proof -
  let ?W = "sample_world 0 (LogsRaised ResourceNotFoundException) (PutEventsResponse 0)"
  have a: "get_last_processed_time ?W (Some (IsoText 5000)) = Inr (IsoText 5000)"
    by (simp add: get_last_processed_time_def sample_world_def)
  have b: "filter_log_events ?W (to_millis 5000) = LogsRaised ResourceNotFoundException"
    by (simp add: sample_world_def)
  have c: "to_millis 5000 = 5" by (simp add: to_millis_def)
  show ?thesis
    using log_query_fault_gives_no_new_investigations
            [OF a b, of sample_library sample_config] c
    by (simp add: sample_config_def)
qed

text \<open>
  C3 as stated fails: a throttling fault of the log query does not reach the
  invocation's caller. The handler returns its "No new investigations" result.
\<close>

theorem log_query_fault_does_not_propagate:
  "handler sample_library sample_config
     (sample_world 0 (LogsRaised (ClientError ''ThrottlingException'')) (PutEventsResponse 0))
     (Some (IsoText 5000))
   = (Inr (NoNewInvestigations ''acme''),
      [Print Triggered, GetParameter, Print (LastProcessedTime (IsoText 5000)),
       FilterLogEvents 5, Print (ErrorQuerying (ClientError ''ThrottlingException'')),
       Print NoNewFound],
      Some (IsoText 5000))"
  by (simp add: monitor_defs sample_defs)

section \<open>Investigation monitor: what a poll returns\<close>




section \<open>Investigation monitor: the size cap\<close>

text \<open>
  C5. The events handed to the bus in a batch are exactly the formatted events of the
  investigations whose serialised size is at most 256,000 bytes, in order: an
  investigation whose event is larger raises a \<open>ValueError\<close> that the loop catches and
  prints, and the rest of the batch is processed as before. So every event an
  invocation transmits has at most 256,000 bytes. An event above 200,000 and at most
  256,000 bytes is returned with a printed warning and nothing else; one of at most
  200,000 bytes is returned with no output.
\<close>

theorem oversized_event_is_dropped_alone:
  "published (snd (process_investigations L cfg W i xs)) =
     map (build_event L cfg)
       (filter (\<lambda>x. json_size L (build_event L cfg x) \<le> 256000) xs)
   \<and> list_all (\<lambda>event. json_size L event \<le> 256000)
       (published (fst (snd (handler L cfg W store))))
   \<and> (256000 < json_size L (build_event L cfg x) \<longrightarrow>
        format_investigation_event L cfg x =
          (Inl (ValueError ''Event size exceeds EventBridge limit''),
           [Print (WarningLarge (json_size L (build_event L cfg x)))])
        \<and> process_investigation L cfg W i x =
          (False,
           [Print (WarningLarge (json_size L (build_event L cfg x))),
            Print (ErrorProcessing (investigation_id x)
                     (ValueError ''Event size exceeds EventBridge limit''))]))
   \<and> (200000 < json_size L (build_event L cfg x)
        \<and> json_size L (build_event L cfg x) \<le> 256000 \<longrightarrow>
        format_investigation_event L cfg x =
          (Inr (build_event L cfg x),
           [Print (WarningLarge (json_size L (build_event L cfg x)))]))
   \<and> (json_size L (build_event L cfg x) \<le> 200000 \<longrightarrow>
        format_investigation_event L cfg x = (Inr (build_event L cfg x), []))"
proof (intro conjI)
  show "published (snd (process_investigations L cfg W i xs)) =
     map (build_event L cfg)
       (filter (\<lambda>x. json_size L (build_event L cfg x) \<le> 256000) xs)"
    by (rule published_process_all)
  have all: "list_all (\<lambda>event. json_size L event \<le> 256000)
               (published (snd (process_investigations L cfg W j ys)))" for j ys
    by (simp add: published_process_all list_all_iff)
  show "list_all (\<lambda>event. json_size L event \<le> 256000)
       (published (fst (snd (handler L cfg W store))))"
    using published_handler [of L cfg W store] all by auto
  show "256000 < json_size L (build_event L cfg x) \<longrightarrow>
        format_investigation_event L cfg x =
          (Inl (ValueError ''Event size exceeds EventBridge limit''),
           [Print (WarningLarge (json_size L (build_event L cfg x)))])
        \<and> process_investigation L cfg W i x =
          (False,
           [Print (WarningLarge (json_size L (build_event L cfg x))),
            Print (ErrorProcessing (investigation_id x)
                     (ValueError ''Event size exceeds EventBridge limit''))])"
    by (simp add: process_investigation_def format_cases)
  show "200000 < json_size L (build_event L cfg x)
        \<and> json_size L (build_event L cfg x) \<le> 256000 \<longrightarrow>
        format_investigation_event L cfg x =
          (Inr (build_event L cfg x),
           [Print (WarningLarge (json_size L (build_event L cfg x)))])"
    by (simp add: format_cases)
  show "json_size L (build_event L cfg x) \<le> 200000 \<longrightarrow>
        format_investigation_event L cfg x = (Inr (build_event L cfg x), [])"
    by (simp add: format_cases)
qed

theorem oversized_event_is_dropped_alone_witness:
  "map ev_investigation_id
     (published (snd (process_investigations sample_library sample_config
        (sample_world 0 (LogsResponse []) (PutEventsResponse 0)) 0
        [sample_investigation 7 ''a'', sample_investigation 8 ''abcd'',
         sample_investigation 9 ''abc''])))
     = [Some ''a'', Some ''abc'']
   \<and> format_investigation_event sample_library sample_config
         (sample_investigation 8 ''abcd'') =
       (Inl (ValueError ''Event size exceeds EventBridge limit''),
        [Print (WarningLarge 280000)])
   \<and> snd (format_investigation_event sample_library sample_config
         (sample_investigation 9 ''abc'')) = [Print (WarningLarge 210000)]
   \<and> snd (format_investigation_event sample_library sample_config
         (sample_investigation 7 ''a'')) = []"
proof -
  let ?W = "sample_world 0 (LogsResponse []) (PutEventsResponse 0)"
  let ?xs = "[sample_investigation 7 ''a'', sample_investigation 8 ''abcd'',
              sample_investigation 9 ''abc'']"
  have size: "json_size sample_library
                (build_event sample_library sample_config (sample_investigation ms ident))
              = 70000 * length ident" for ms ident
    by (simp add: sample_library_def build_event_def sample_investigation_def py_str_def)
  have ident: "ev_investigation_id
                 (build_event sample_library sample_config (sample_investigation ms ident))
               = Some ident" for ms ident
    by (simp add: build_event_def sample_investigation_def)
  note t = oversized_event_is_dropped_alone
             [where L = sample_library and cfg = sample_config and W = "?W" and i = 0
                and xs = "?xs" and store = "Some (IsoText 0)"]
  from t [where x = "sample_investigation 8 ''abcd''"]
  have a: "map ev_investigation_id
             (published (snd (process_investigations sample_library sample_config ?W 0 ?xs)))
           = [Some ''a'', Some ''abc'']"
    and b: "format_investigation_event sample_library sample_config
              (sample_investigation 8 ''abcd'') =
            (Inl (ValueError ''Event size exceeds EventBridge limit''),
             [Print (WarningLarge 280000)])"
    by (simp_all add: size ident)
  from t [where x = "sample_investigation 9 ''abc''"]
  have c: "snd (format_investigation_event sample_library sample_config
             (sample_investigation 9 ''abc'')) = [Print (WarningLarge 210000)]"
    by (simp add: size)
  from t [where x = "sample_investigation 7 ''a''"]
  have d: "snd (format_investigation_event sample_library sample_config
             (sample_investigation 7 ''a'')) = []"
    by (simp add: size)
  from a b c d show ?thesis by simp
qed

section \<open>Investigation monitor: the watermark over a sequence of cycles\<close>





section \<open>Simple routing: lemmas\<close>

lemma items_stored_append: "items_stored (a @ b) = items_stored a @ items_stored b"
  by (induction a rule: items_stored.induct) auto

lemma secrets_read_append: "secrets_read (a @ b) = secrets_read a @ secrets_read b"
  by (induction a rule: secrets_read.induct) auto

lemma alerts_published_append:
  "alerts_published (a @ b) = alerts_published a @ alerts_published b"
  by (induction a rule: alerts_published.induct) auto

lemmas routing_append = items_stored_append secrets_read_append alerts_published_append

lemma page_engineer_body_quiet:
  "items_stored (fst (page_engineer_body cfg W d)) = []
   \<and> secrets_read (fst (page_engineer_body cfg W d)) = []
   \<and> alerts_published (fst (page_engineer_body cfg W d)) = []"
  by (simp add: page_engineer_body_def split: secret_result.splits option.splits)

lemma page_engineer_trace:
  "items_stored (page_engineer cfg W d) = []
   \<and> secrets_read (page_engineer cfg W d) = [PAGERDUTY_SECRET_NAME cfg]
   \<and> alerts_published (page_engineer cfg W d) = []"
proof -
  obtain out r where b: "page_engineer_body cfg W d = (out, r)"
    by (cases "page_engineer_body cfg W d")
  with page_engineer_body_quiet [of cfg W d] show ?thesis
    by (cases r) (simp_all add: page_engineer_def routing_append)
qed

lemma create_jira_ticket_body_quiet:
  "items_stored (fst (create_jira_ticket_body cfg W d)) = []
   \<and> secrets_read (fst (create_jira_ticket_body cfg W d)) = []
   \<and> alerts_published (fst (create_jira_ticket_body cfg W d)) = []"
  by (simp add: create_jira_ticket_body_def split: secret_result.splits option.splits)

lemma create_jira_ticket_trace:
  "items_stored (create_jira_ticket cfg W d) = []
   \<and> secrets_read (create_jira_ticket cfg W d) = [JIRA_SECRET_NAME cfg]
   \<and> alerts_published (create_jira_ticket cfg W d) = []"
proof -
  obtain out r where b: "create_jira_ticket_body cfg W d = (out, r)"
    by (cases "create_jira_ticket_body cfg W d")
  with create_jira_ticket_body_quiet [of cfg W d] show ?thesis
    by (cases r) (simp_all add: create_jira_ticket_def routing_append)
qed

lemma paging_channel_trace:
  "paging_channel cfg W d = (acts, out) \<Longrightarrow>
     acts = (if PAGERDUTY_SECRET_NAME cfg = [] then [] else [''paged_engineer''])
     \<and> items_stored out = []
     \<and> secrets_read out =
         (if PAGERDUTY_SECRET_NAME cfg = [] then [] else [PAGERDUTY_SECRET_NAME cfg])
     \<and> alerts_published out = []"
  using page_engineer_trace [of cfg W d]
  by (auto simp: paging_channel_def split: if_splits)

lemma ticketing_channel_trace:
  "ticketing_channel cfg W d = (acts, out) \<Longrightarrow>
     acts = (if JIRA_SECRET_NAME cfg = [] then [] else [''created_ticket''])
     \<and> items_stored out = []
     \<and> secrets_read out =
         (if JIRA_SECRET_NAME cfg = [] then [] else [JIRA_SECRET_NAME cfg])
     \<and> alerts_published out = []"
  using create_jira_ticket_trace [of cfg W d]
  by (auto simp: ticketing_channel_def split: if_splits)

lemma send_sns_alert_trace:
  "items_stored (snd (send_sns_alert cfg W d)) = []
   \<and> secrets_read (snd (send_sns_alert cfg W d)) = []
   \<and> alerts_published (snd (send_sns_alert cfg W d)) =
       (case alert_of cfg d of Inl e \<Rightarrow> [] | Inr a \<Rightarrow> [a])
   \<and> fst (send_sns_alert cfg W d) =
       (case alert_of cfg d of Inl e \<Rightarrow> Some e | Inr a \<Rightarrow> sns_publish_fault W)"
  by (simp add: send_sns_alert_def split: sum.splits option.splits)

lemma store_investigation_trace:
  "secrets_read (snd (store_investigation cfg W d)) = []
   \<and> alerts_published (snd (store_investigation cfg W d)) = []
   \<and> (fst (store_investigation cfg W d) = None \<longrightarrow>
        length (items_stored (snd (store_investigation cfg W d))) = 1)"
  by (simp add: store_investigation_def Let_def split: option.splits)

lemmas routing_defs =
  routing_handler_def route_by_severity_def paging_channel_def ticketing_channel_def
  store_investigation_def page_engineer_def page_engineer_body_def
  create_jira_ticket_def create_jira_ticket_body_def send_sns_alert_def alert_of_def
  Let_def

lemmas routing_sample_defs =
  sample_detail_def sample_routing_config_def sample_routing_world_def

section \<open>Simple routing: channels and secret names\<close>

text \<open>
  C10. For a CRITICAL or HIGH event with an \<open>investigation_id\<close> whose item is stored:
  the secrets read are the paging secret when its configured name is not empty, then
  the ticketing secret when its name is not empty, and nothing else, so a channel
  with an empty secret name is not attempted; the item is stored once; the alert is
  published whenever the event carries the fields of its text; and when the publish
  succeeds the actions returned are \<open>paged_engineer\<close> and \<open>created_ticket\<close>, each only
  under a non-empty secret name, followed by \<open>sent_alert\<close>.
\<close>

theorem channels_attempted_only_with_secret_names:
  assumes "d_severity d = Some sev" and "sev = ''CRITICAL'' \<or> sev = ''HIGH''"
    and "d_investigation_id d = Some ident" and "ident \<noteq> []"
    and "fst (store_investigation cfg W d) = None"
  shows "secrets_read (snd (routing_handler cfg W (Some d))) =
           (if PAGERDUTY_SECRET_NAME cfg = [] then [] else [PAGERDUTY_SECRET_NAME cfg])
           @ (if JIRA_SECRET_NAME cfg = [] then [] else [JIRA_SECRET_NAME cfg])
         \<and> length (items_stored (snd (routing_handler cfg W (Some d)))) = 1
         \<and> (alert_of cfg d = Inr a \<longrightarrow>
               alerts_published (snd (routing_handler cfg W (Some d))) = [a])
         \<and> (alert_of cfg d = Inr a \<and> sns_publish_fault W = None \<longrightarrow>
               fst (routing_handler cfg W (Some d)) =
                 Inr \<lparr> r_statusCode = 200, r_message = ''Routing successful'',
                       r_investigation_id = ident,
                       r_actions =
                         (if PAGERDUTY_SECRET_NAME cfg = [] then [] else [''paged_engineer''])
                         @ (if JIRA_SECRET_NAME cfg = [] then [] else [''created_ticket''])
                         @ [''sent_alert''] \<rparr>)"
proof -
  obtain stored where st: "store_investigation cfg W d = (None, stored)"
    using assms(5) by (cases "store_investigation cfg W d") auto
  obtain paged out1 where pg: "paging_channel cfg W d = (paged, out1)"
    by (cases "paging_channel cfg W d")
  obtain ticketed out2 where tk: "ticketing_channel cfg W d = (ticketed, out2)"
    by (cases "ticketing_channel cfg W d")
  obtain r out3 where sn: "send_sns_alert cfg W d = (r, out3)"
    by (cases "send_sns_alert cfg W d")
  note ps = paging_channel_trace [OF pg]
  note ts = ticketing_channel_trace [OF tk]
  have ss: "items_stored out3 = [] \<and> secrets_read out3 = []
            \<and> alerts_published out3 = (case alert_of cfg d of Inl e \<Rightarrow> [] | Inr a \<Rightarrow> [a])
            \<and> r = (case alert_of cfg d of Inl e \<Rightarrow> Some e | Inr a \<Rightarrow> sns_publish_fault W)"
    using send_sns_alert_trace [of cfg W d] sn by simp
  have sts: "secrets_read stored = [] \<and> alerts_published stored = []
             \<and> length (items_stored stored) = 1"
    using store_investigation_trace [of cfg W d] st by simp
  have route: "route_by_severity cfg W d sev =
                 (case r of Some e \<Rightarrow> (Inl e, out1 @ out2 @ out3)
                  | None \<Rightarrow> (Inr (paged @ ticketed @ [''sent_alert'']), out1 @ out2 @ out3))"
    using assms(2) pg tk sn by (cases r) (auto simp: route_by_severity_def)
  show ?thesis
  proof (cases r)
    case None
    with route assms(1,3,4) st have
      h: "routing_handler cfg W (Some d) =
            (Inr \<lparr> r_statusCode = 200, r_message = ''Routing successful'',
                   r_investigation_id = ident,
                   r_actions = paged @ ticketed @ [''sent_alert''] \<rparr>,
             [RoutingPrint RoutingTriggered, RoutingPrint EventDump] @ stored
               @ (out1 @ out2 @ out3)
               @ [RoutingPrint (RoutingComplete ident (paged @ ticketed @ [''sent_alert'']))])"
      by (simp add: routing_handler_def)
    show ?thesis using ps ts ss sts None
      by (simp add: h routing_append split: sum.splits)
  next
    case (Some e)
    with route assms(1,3,4) st have
      h: "routing_handler cfg W (Some d) =
            (Inl e,
             [RoutingPrint RoutingTriggered, RoutingPrint EventDump] @ stored
               @ (out1 @ out2 @ out3) @ [RoutingPrint (ErrorInRouting e)])"
      by (simp add: routing_handler_def)
    have f: "alert_of cfg d = Inr a \<longrightarrow> sns_publish_fault W = Some e"
      using ss Some by simp
    have p3: "alert_of cfg d = Inr a \<longrightarrow> alerts_published out3 = [a]"
      using ss by simp
    have q3: "items_stored out3 = [] \<and> secrets_read out3 = []" using ss by simp
    show ?thesis using ps ts q3 p3 f sts
      by (simp add: h routing_append)
  qed
qed

theorem channels_attempted_only_with_secret_names_witness:
  "secrets_read (snd (routing_handler (sample_routing_config [] ''jira/key'')
      (sample_routing_world (SecretConfig [(''api_token'', ''t''), (''project_key'', ''OPS'')])
         None)
      (Some (sample_detail ''CRITICAL'')))) = [''jira/key'']
   \<and> length (items_stored (snd (routing_handler (sample_routing_config [] ''jira/key'')
      (sample_routing_world (SecretConfig [(''api_token'', ''t''), (''project_key'', ''OPS'')])
         None)
      (Some (sample_detail ''CRITICAL''))))) = 1
   \<and> length (alerts_published (snd (routing_handler (sample_routing_config [] ''jira/key'')
      (sample_routing_world (SecretConfig [(''api_token'', ''t''), (''project_key'', ''OPS'')])
         None)
      (Some (sample_detail ''CRITICAL''))))) = 1
   \<and> fst (routing_handler (sample_routing_config [] ''jira/key'')
      (sample_routing_world (SecretConfig [(''api_token'', ''t''), (''project_key'', ''OPS'')])
         None)
      (Some (sample_detail ''CRITICAL'')))
     = Inr \<lparr> r_statusCode = 200, r_message = ''Routing successful'',
             r_investigation_id = ''i-1'',
             r_actions = [''created_ticket'', ''sent_alert''] \<rparr>"
proof -
  let ?cfg = "sample_routing_config [] ''jira/key''"
  let ?W = "sample_routing_world
              (SecretConfig [(''api_token'', ''t''), (''project_key'', ''OPS'')]) None"
  let ?d = "sample_detail ''CRITICAL''"
  have h1: "d_severity ?d = Some ''CRITICAL''" by (simp add: sample_detail_def)
  have h2: "''CRITICAL'' = ''CRITICAL'' \<or> ''CRITICAL'' = ''HIGH''" by simp
  have h3: "d_investigation_id ?d = Some ''i-1''" by (simp add: sample_detail_def)
  have h4: "''i-1'' \<noteq> []" by simp
  have h5: "fst (store_investigation ?cfg ?W ?d) = None"
    by (simp add: store_investigation_def routing_sample_defs)
  obtain a where a: "alert_of ?cfg ?d = Inr a"
    by (simp add: alert_of_def routing_sample_defs)
  have f: "sns_publish_fault ?W = None" by (simp add: sample_routing_world_def)
  have c: "PAGERDUTY_SECRET_NAME ?cfg = [] \<and> JIRA_SECRET_NAME ?cfg = ''jira/key''"
    by (simp add: sample_routing_config_def)
  from channels_attempted_only_with_secret_names [OF h1 h2 h3 h4 h5, where a = a] a f c
  show ?thesis by simp
qed

section \<open>Simple routing: a failing alert\<close>

text \<open>
  C2. The claim: a failure of any notification channel (paging, ticketing, broadcast
  alert) is caught and logged and does not abort the event; only the persist step
  fails the event. The code at one input: a HIGH event, a configured paging secret
  whose lookup is denied, and an alert topic whose publish is refused. The paging
  failure is caught and printed; the item is stored; the publish failure is raised by
  the handler.
\<close>

theorem alert_failure_fails_the_event:
  "fst (routing_handler (sample_routing_config ''pagerduty/key'' [])
          (sample_routing_world (SecretRaised (ClientError ''AccessDenied''))
             (Some (ClientError ''AuthorizationError'')))
          (Some (sample_detail ''HIGH''))) = Inl (ClientError ''AuthorizationError'')
   \<and> RoutingPrint (ErrorPaging (ClientError ''AccessDenied''))
       \<in> set (snd (routing_handler (sample_routing_config ''pagerduty/key'' [])
          (sample_routing_world (SecretRaised (ClientError ''AccessDenied''))
             (Some (ClientError ''AuthorizationError'')))
          (Some (sample_detail ''HIGH''))))
   \<and> length (items_stored (snd (routing_handler (sample_routing_config ''pagerduty/key'' [])
          (sample_routing_world (SecretRaised (ClientError ''AccessDenied''))
             (Some (ClientError ''AuthorizationError'')))
          (Some (sample_detail ''HIGH''))))) = 1"
  by (simp add: routing_defs routing_sample_defs)

section \<open>Pattern detector: lemmas\<close>

lemma model_calls_append: "model_calls (a @ b) = model_calls a @ model_calls b"
  by (induction a rule: model_calls.induct) auto

lemma pattern_alerts_append: "pattern_alerts (a @ b) = pattern_alerts a @ pattern_alerts b"
  by (induction a rule: pattern_alerts.induct) auto

lemmas detector_append = model_calls_append pattern_alerts_append

lemma parse_trace:
  "model_calls (snd (parse_bedrock_response loads text)) = []
   \<and> pattern_alerts (snd (parse_bedrock_response loads text)) = []"
  by (simp add: parse_bedrock_response_def split: option.splits)

lemma analyze_trace:
  assumes "build_analysis_prompt items = Inr prompt"
  shows "model_calls (snd (analyze_patterns_with_bedrock loads W items)) = [prompt]
         \<and> pattern_alerts (snd (analyze_patterns_with_bedrock loads W items)) = []
         \<and> (\<exists>v. fst (analyze_patterns_with_bedrock loads W items) = Inr v)"
proof (cases "invoke_model W prompt")
  case (InvokeRaised e)
  with assms show ?thesis by (simp add: analyze_patterns_with_bedrock_def)
next
  case (BodyUnreadable e)
  with assms show ?thesis by (simp add: analyze_patterns_with_bedrock_def)
next
  case (ResponseText reply)
  obtain v out where p: "parse_bedrock_response loads reply = (v, out)"
    by (cases "parse_bedrock_response loads reply")
  with parse_trace [of loads reply] have "model_calls out = [] \<and> pattern_alerts out = []"
    by simp
  with assms ResponseText p show ?thesis
    by (simp add: analyze_patterns_with_bedrock_def)
qed


lemma alert_trace:
  "model_calls (snd (alert_senior_engineer cfg W a)) = []"
  by (simp add: alert_senior_engineer_def Let_def split: option.splits)

lemma analyze_and_alert_calls:
  assumes "build_analysis_prompt items = Inr prompt"
  shows "model_calls (snd (analyze_and_alert loads cfg W ident items)) = [prompt]"
proof -
  obtain r out where a: "analyze_patterns_with_bedrock loads W items = (r, out)"
    by (cases "analyze_patterns_with_bedrock loads W items")
  from analyze_trace [OF assms, of loads W] a
  obtain v where v: "r = Inr v" and m: "model_calls out = [prompt]" by auto
  show ?thesis
  proof (cases v)
    case JsonOther
    with a v m show ?thesis by (simp add: analyze_and_alert_def)
  next
    case (JsonDict an)
    obtain x out' where s: "alert_senior_engineer cfg W an = (x, out')"
      by (cases "alert_senior_engineer cfg W an")
    with alert_trace [of cfg W an] have "model_calls out' = []" by simp
    with a v m JsonDict s show ?thesis
      by (cases x) (simp_all add: analyze_and_alert_def Let_def detector_append)
  qed
qed


lemma pattern_handler_enough:
  assumes "d_investigation_id d = Some ident" and "ident \<noteq> []"
    and "table_scan W (detector_utcnow W - 24 * 3600000000) = ScanItems items"
    and "3 \<le> length items"
    and "analyze_and_alert loads cfg W ident items = (r, out)"
  shows "pattern_handler loads cfg W (Some d) =
           (r,
            [DetectorPrint DetectionTriggered, Scan (detector_utcnow W - 24 * 3600000000),
             DetectorPrint (FoundRecent (length items))] @ out
            @ (case r of Inl e \<Rightarrow> [DetectorPrint (ErrorInDetection e)] | Inr v \<Rightarrow> []))"
  using assms
  by (cases r) (simp_all add: pattern_handler_def query_recent_investigations_def Let_def)

lemma pattern_handler_few:
  assumes "d_investigation_id d = Some ident" and "ident \<noteq> []"
    and "table_scan W (detector_utcnow W - 24 * 3600000000) = ScanItems items"
    and "length items < 3"
  shows "pattern_handler loads cfg W (Some d) =
           (Inr \<lparr> pr_statusCode = 200,
                  pr_message = ''Insufficient data for pattern detection'',
                  pr_patterns_detected = None, pr_investigation_id = None \<rparr>,
            [DetectorPrint DetectionTriggered, Scan (detector_utcnow W - 24 * 3600000000),
             DetectorPrint (FoundRecent (length items)), DetectorPrint NotEnough])"
  using assms
  by (simp add: pattern_handler_def query_recent_investigations_def Let_def)

lemmas detector_defs =
  pattern_handler_def query_recent_investigations_def analyze_and_alert_def
  analyze_patterns_with_bedrock_def parse_bedrock_response_def alert_senior_engineer_def
  failed_analysis_def empty_detail_def Let_def

lemmas detector_sample_defs =
  sample_item_def sample_detector_config_def sample_detector_world_def sample_detail_def

section \<open>Pattern detector: a failing classifier\<close>



section \<open>Pattern detector: the volume threshold\<close>

text \<open>
  C6, as amended. For an event that carries an \<open>investigation_id\<close>: when the scan of
  the trailing 24 hours returns fewer than 3 records, the detector returns a success
  response that carries only the message "Insufficient data for pattern detection"
  (it has no \<open>patterns_detected\<close> field), after the scan and two printed lines, with
  no classifier call and no alert; when the scan returns 3 or more records, each with
  the summary keys the prompt reads, it calls the classifier, once.
\<close>

theorem correlation_threshold:
  assumes "d_investigation_id d = Some ident" and "ident \<noteq> []"
    and "table_scan W (detector_utcnow W - 24 * 3600000000) = ScanItems items"
  shows "(length items < 3 \<longrightarrow>
            pattern_handler loads cfg W (Some d) =
              (Inr \<lparr> pr_statusCode = 200,
                     pr_message = ''Insufficient data for pattern detection'',
                     pr_patterns_detected = None, pr_investigation_id = None \<rparr>,
               [DetectorPrint DetectionTriggered,
                Scan (detector_utcnow W - 24 * 3600000000),
                DetectorPrint (FoundRecent (length items)), DetectorPrint NotEnough]))
         \<and> (3 \<le> length items \<and> build_analysis_prompt items = Inr prompt \<longrightarrow>
              model_calls (snd (pattern_handler loads cfg W (Some d))) = [prompt])"
proof (intro conjI impI)
  assume "length items < 3"
  from pattern_handler_few [OF assms this]
  show "pattern_handler loads cfg W (Some d) =
              (Inr \<lparr> pr_statusCode = 200,
                     pr_message = ''Insufficient data for pattern detection'',
                     pr_patterns_detected = None, pr_investigation_id = None \<rparr>,
               [DetectorPrint DetectionTriggered,
                Scan (detector_utcnow W - 24 * 3600000000),
                DetectorPrint (FoundRecent (length items)), DetectorPrint NotEnough])" .
next
  assume h: "3 \<le> length items \<and> build_analysis_prompt items = Inr prompt"
  obtain r out where a: "analyze_and_alert loads cfg W ident items = (r, out)"
    by (cases "analyze_and_alert loads cfg W ident items")
  from h have h4: "3 \<le> length items" and b: "build_analysis_prompt items = Inr prompt"
    by simp_all
  from analyze_and_alert_calls [OF b, of loads cfg W ident] a
  have m: "model_calls out = [prompt]" by simp
  from pattern_handler_enough [OF assms h4 a] m
  show "model_calls (snd (pattern_handler loads cfg W (Some d))) = [prompt]"
    by (cases r) (simp_all add: detector_append)
qed

theorem correlation_threshold_witness:
  "pattern_handler sample_loads sample_detector_config
     (sample_detector_world [sample_item ''acme'', sample_item ''globex'']
        (ResponseText ''{}''))
     (Some (sample_detail ''HIGH''))
   = (Inr \<lparr> pr_statusCode = 200,
            pr_message = ''Insufficient data for pattern detection'',
            pr_patterns_detected = None, pr_investigation_id = None \<rparr>,
      [DetectorPrint DetectionTriggered, Scan 0, DetectorPrint (FoundRecent 2),
       DetectorPrint NotEnough])
   \<and> length (model_calls (snd (pattern_handler sample_loads sample_detector_config
        (sample_detector_world
           [sample_item ''acme'', sample_item ''globex'', sample_item ''initech'']
           (ResponseText ''{}''))
        (Some (sample_detail ''HIGH''))))) = 1"
proof -
  let ?two = "[sample_item ''acme'', sample_item ''globex'']"
  let ?three = "[sample_item ''acme'', sample_item ''globex'', sample_item ''initech'']"
  let ?W2 = "sample_detector_world ?two (ResponseText ''{}'')"
  let ?W3 = "sample_detector_world ?three (ResponseText ''{}'')"
  have i: "d_investigation_id (sample_detail ''HIGH'') = Some ''i-1''"
    by (simp add: sample_detail_def)
  have n: "''i-1'' \<noteq> []" by simp
  have s2: "table_scan ?W2 (detector_utcnow ?W2 - 24 * 3600000000) = ScanItems ?two"
    by (simp add: sample_detector_world_def)
  have s3: "table_scan ?W3 (detector_utcnow ?W3 - 24 * 3600000000) = ScanItems ?three"
    by (simp add: sample_detector_world_def)
  have c: "detector_utcnow ?W2 - 24 * 3600000000 = 0"
    by (simp add: sample_detector_world_def)
  obtain prompt where b: "build_analysis_prompt ?three = Inr prompt"
    by (simp add: sample_item_def)
  from correlation_threshold
         [OF i n s2, where loads = sample_loads and cfg = sample_detector_config,
          THEN conjunct1] c
  have a: "pattern_handler sample_loads sample_detector_config ?W2
             (Some (sample_detail ''HIGH''))
           = (Inr \<lparr> pr_statusCode = 200,
                    pr_message = ''Insufficient data for pattern detection'',
                    pr_patterns_detected = None, pr_investigation_id = None \<rparr>,
              [DetectorPrint DetectionTriggered, Scan 0, DetectorPrint (FoundRecent 2),
               DetectorPrint NotEnough])"
    by simp
  from correlation_threshold
         [OF i n s3, where loads = sample_loads and cfg = sample_detector_config
            and prompt = prompt, THEN conjunct2] b
  have m: "length (model_calls (snd (pattern_handler sample_loads sample_detector_config
             ?W3 (Some (sample_detail ''HIGH''))))) = 1"
    by simp
  show ?thesis by (rule conjI [OF a m])
qed

text \<open>
  C6 as stated fails. With two records the response has no \<open>patterns_detected\<close>
  field, false or otherwise. With three records and an event without
  \<open>investigation_id\<close> the handler raises before it scans, and with three records of
  which one lacks \<open>root_cause_category\<close> it raises while building the prompt: in
  both the classifier is not called.
\<close>

theorem few_records_response_has_no_patterns_detected:
  "fst (pattern_handler sample_loads sample_detector_config
          (sample_detector_world [sample_item ''acme'', sample_item ''globex'']
             (ResponseText ''{}''))
          (Some (sample_detail ''HIGH'')))
     = Inr \<lparr> pr_statusCode = 200,
             pr_message = ''Insufficient data for pattern detection'',
             pr_patterns_detected = None, pr_investigation_id = None \<rparr>
   \<and> pattern_handler sample_loads sample_detector_config
          (sample_detector_world
             [sample_item ''acme'', sample_item ''globex'', sample_item ''initech'']
             (ResponseText ''{}''))
          None
     = (Inl (ValueError ''No investigation_id in event''),
        [DetectorPrint DetectionTriggered,
         DetectorPrint (ErrorInDetection (ValueError ''No investigation_id in event''))])
   \<and> fst (pattern_handler sample_loads sample_detector_config
          (sample_detector_world
             [sample_item ''acme'', sample_item ''globex'',
              (sample_item ''initech'')
                \<lparr> i_summary := \<lparr> ds_root_cause_brief = None, ds_root_cause_category = None,
                                  ds_resource_types = None, ds_duration_minutes = None \<rparr> \<rparr>]
             (ResponseText ''{}''))
          (Some (sample_detail ''HIGH'')))
     = Inl (KeyError ''root_cause_category'')
   \<and> model_calls (snd (pattern_handler sample_loads sample_detector_config
          (sample_detector_world
             [sample_item ''acme'', sample_item ''globex'',
              (sample_item ''initech'')
                \<lparr> i_summary := \<lparr> ds_root_cause_brief = None, ds_root_cause_category = None,
                                  ds_resource_types = None, ds_duration_minutes = None \<rparr> \<rparr>]
             (ResponseText ''{}''))
          (Some (sample_detail ''HIGH'')))) = []"
  by (simp add: detector_defs detector_sample_defs)

end
